theory Spec2Isabelle
  imports Main "HOL-Library.Word"
begin

section \<open>The ztls grabbing client: data model\<close>

text \<open>
  The source is the Go package \<open>ztls\<close> (file \<open>pkg/tlsx/ztls/ztls.go\<close>): a constructor
  \<open>New\<close>, the method \<open>Connect\<close> and two helpers that turn raw certificates into response
  records. The TLS engine, the TCP dialer and the X.509 decoder are libraries outside the
  package; their answers are supplied by a \<open>world\<close> record further down.
\<close>

type_synonym byte = "8 word"

subsection \<open>Errors\<close>

text \<open>
  \<open>type timeoutError struct{}\<close> with its three methods, each returning a constant.
\<close>

datatype timeoutError = timeoutError

definition timeoutError_Error :: "timeoutError \<Rightarrow> string" where
  "timeoutError_Error e = ''tls: DialWithDialer timed out''"

definition timeoutError_Timeout :: "timeoutError \<Rightarrow> bool" where
  "timeoutError_Timeout e = True"

definition timeoutError_Temporary :: "timeoutError \<Rightarrow> bool" where
  "timeoutError_Temporary e = True"

text \<open>
  A value of Go's \<open>error\<close> interface, by its dynamic type: the package's own
  \<open>timeoutError\<close>, the engine's sentinel \<open>tls.ErrCertsOnly\<close>, an error made by
  \<open>fmt.Errorf\<close> (its formatted message), any other error of a library (its message), and
  the result of \<open>errors.Wrap(cause, message)\<close>. A nil error is \<open>None\<close> of
  \<open>error option\<close>.
\<close>

datatype error =
    TimeoutErr timeoutError
  | ErrCertsOnly
  | Errorf string
  | LibraryError string
  | Wrap error string

text \<open>
  \<open>errors.Wrap\<close> returns nil for a nil error and otherwise a new error value that holds
  the cause and the message; \<open>Error()\<close> of the wrapper is \<open>message: cause\<close>, and
  \<open>errors.Cause\<close> follows the wrappers down to the innermost error.
\<close>

definition errors_Wrap :: "error option \<Rightarrow> string \<Rightarrow> error option" where
  "errors_Wrap err message = (case err of None \<Rightarrow> None | Some e \<Rightarrow> Some (Wrap e message))"

fun Error :: "error \<Rightarrow> string" where
  "Error (TimeoutErr t) = timeoutError_Error t"
| "Error ErrCertsOnly = ''handshake abandoned per CertsOnly option''"
| "Error (Errorf s) = s"
| "Error (LibraryError s) = s"
| "Error (Wrap e message) = message @ '': '' @ Error e"

fun Cause :: "error \<Rightarrow> error" where
  "Cause (Wrap e message) = Cause e"
| "Cause e = e"

subsection \<open>Version Table\<close>

text \<open>
  Modelled from the spec: the four constants \<open>tls.VersionSSL30 .. tls.VersionTLS12\<close> belong
  to the engine's package, which is not part of the source; they are the protocol's
  numeric version identifiers, of Go type \<open>uint16\<close>.
\<close>

definition VersionSSL30 :: "16 word" where "VersionSSL30 = 0x0300"
definition VersionTLS10 :: "16 word" where "VersionTLS10 = 0x0301"
definition VersionTLS11 :: "16 word" where "VersionTLS11 = 0x0302"
definition VersionTLS12 :: "16 word" where "VersionTLS12 = 0x0303"

definition versionStringToTLSVersion :: "string \<rightharpoonup> 16 word" where
  "versionStringToTLSVersion = map_of
     [(''ssl30'', VersionSSL30),
      (''tls10'', VersionTLS10),
      (''tls11'', VersionTLS11),
      (''tls12'', VersionTLS12)]"

definition versionToTLSVersionString :: "16 word \<rightharpoonup> string" where
  "versionToTLSVersionString = map_of
     [(VersionSSL30, ''ssl30''),
      (VersionTLS10, ''tls10''),
      (VersionTLS11, ''tls11''),
      (VersionTLS12, ''tls12'')]"

subsection \<open>Options, configuration, client\<close>

text \<open>
  \<open>clients.Options\<close>, with the fields \<open>New\<close> reads. \<open>Timeout\<close> is a Go \<open>int\<close> (seconds).
\<close>

record Options =
  Timeout :: int
  ServerName :: string
  MinVersion :: string
  MaxVersion :: string
  CertsOnly :: bool
  VerifyServerCertificate :: bool

text \<open>\<open>tls.Config\<close>, with the fields the package sets.\<close>

record Config =
  CertsOnly :: bool
  MinVersion :: "16 word"
  MaxVersion :: "16 word"
  InsecureSkipVerify :: bool
  ServerName :: string

text \<open>
  \<open>net.Dialer\<close>: its \<open>Timeout\<close> is a \<open>time.Duration\<close>, a signed 64-bit count of
  nanoseconds. \<open>time.Second\<close> is \<open>1000000000\<close>.
\<close>

record Dialer =
  Timeout :: "64 word"

definition Second :: "64 word" where
  "Second = 1000000000"

text \<open>
  The client holds its configuration by pointer (\<open>tlsConfig *tls.Config\<close>). Configurations
  live in a store: a list of cells, a pointer being the index of a cell. Allocation appends
  a cell; reading a pointer that names no cell is Go's nil dereference.
  The dialer is only ever read, and is kept by value.
\<close>

type_synonym addr = nat
type_synonym heap = "Config list"

definition alloc :: "heap \<Rightarrow> Config \<Rightarrow> heap \<times> addr" where
  "alloc h v = (h @ [v], length h)"

definition deref :: "heap \<Rightarrow> addr \<Rightarrow> Config option" where
  "deref h a = (if a < length h then Some (h ! a) else None)"

definition assign :: "heap \<Rightarrow> addr \<Rightarrow> (Config \<Rightarrow> Config) \<Rightarrow> heap" where
  "assign h a f = (if a < length h then h[a := f (h ! a)] else h)"

record Client =
  dialer :: Dialer
  tlsConfig :: addr

section \<open>New\<close>

text \<open>
  \<open>New\<close> allocates the configuration with its defaults, then writes the server name and
  the version bounds through the pointer. It returns the pair \<open>(*Client, error)\<close>; the
  first component of the result is the store after the call.
  \<open>fmt.Errorf("invalid min version specified: %s", s)\<close> is the prefix followed by \<open>s\<close>.
\<close>

definition New_MaxVersion :: "heap \<Rightarrow> Client \<Rightarrow> Options \<Rightarrow> heap \<times> Client option \<times> error option" where
  \<comment> \<open>lines 63-71: the \<open>MaxVersion\<close> block and the final return\<close>
  "New_MaxVersion h c options =
    (if Options.MaxVersion options \<noteq> [] then
       (case versionStringToTLSVersion (Options.MaxVersion options) of
          None \<Rightarrow>
            (h, None, Some (Errorf (''invalid max version specified: '' @ Options.MaxVersion options)))
        | Some version \<Rightarrow>
            (assign h (tlsConfig c) (\<lambda>k. k\<lparr> Config.MaxVersion := version \<rparr>), Some c, None))
     else (h, Some c, None))"

definition New_MinVersion :: "heap \<Rightarrow> Client \<Rightarrow> Options \<Rightarrow> heap \<times> Client option \<times> error option" where
  \<comment> \<open>lines 55-62: the \<open>MinVersion\<close> block, then the rest of the function\<close>
  "New_MinVersion h c options =
    (if Options.MinVersion options \<noteq> [] then
       (case versionStringToTLSVersion (Options.MinVersion options) of
          None \<Rightarrow>
            (h, None, Some (Errorf (''invalid min version specified: '' @ Options.MinVersion options)))
        | Some version \<Rightarrow>
            New_MaxVersion (assign h (tlsConfig c) (\<lambda>k. k\<lparr> Config.MinVersion := version \<rparr>)) c options)
     else New_MaxVersion h c options)"

definition New :: "heap \<Rightarrow> Options \<Rightarrow> heap \<times> Client option \<times> error option" where
  "New h0 options =
    (let (h1, cfg) = alloc h0
           \<lparr> Config.CertsOnly = Options.CertsOnly options,
             Config.MinVersion = VersionSSL30,
             Config.MaxVersion = VersionTLS12,
             InsecureSkipVerify = \<not> VerifyServerCertificate options,
             Config.ServerName = [] \<rparr>;
         c = \<lparr> dialer = \<lparr> Dialer.Timeout = word_of_int (Options.Timeout options) * Second \<rparr>,
               tlsConfig = cfg \<rparr>;
         h2 = (if Options.ServerName options \<noteq> []
               then assign h1 (tlsConfig c) (\<lambda>k. k\<lparr> Config.ServerName := Options.ServerName options \<rparr>)
               else h1)
     in New_MinVersion h2 c options)"

text \<open>The tokens of the Version Table.\<close>

definition version_tokens :: "string set" where
  "version_tokens = {''ssl30'', ''tls10'', ''tls11'', ''tls12''}"

section \<open>Certificate extraction\<close>

text \<open>
  \<open>clients.CertificateResponse\<close> and \<open>clients.Response\<close>, with the fields the package
  fills. A Go slice that was never assigned is the empty list.
\<close>

record CertificateResponse =
  DNSNames :: "string list"
  Emails :: "string list"
  IssuerCommonName :: string
  IssuerOrganization :: "string list"
  SubjectCommonName :: string
  SubjectOrganization :: "string list"

record Response =
  Host :: string
  Port :: string
  Version :: string
  TLSConnection :: string
  Leaf :: CertificateResponse
  Chain :: "CertificateResponse list"

text \<open>
  Modelled from the spec: the decoded certificate (\<open>x509.Certificate\<close> with its
  \<open>pkix.Name\<close>s), the handshake log (\<open>ServerHello.Version\<close>,
  \<open>ServerCertificates.Certificate\<close>, \<open>ServerCertificates.Chain\<close>) and the raw certificate
  (\<open>tls.SimpleCertificate\<close>) are types of the engine and the decoder, which are not part
  of the source. They carry the fields the spec's external interfaces name and the
  package reads.
\<close>

record Name =
  CommonName :: string
  Organization :: "string list"

record Certificate =
  DNSNames :: "string list"
  EmailAddresses :: "string list"
  Issuer :: Name
  Subject :: Name

record SimpleCertificate =
  Raw :: "byte list"

record ServerHello =
  Version :: "16 word"

record Certificates =
  Certificate :: SimpleCertificate
  Chain :: "SimpleCertificate list"

record ServerHandshake =
  ServerHello :: ServerHello
  ServerCertificates :: Certificates

text \<open>
  Modelled from the spec: the decoder \<open>x509.ParseCertificate\<close> is not part of the source;
  its boundary is \<open>parseCertificate(rawBytes) -> certificate structure | error\<close>. It is a
  parameter here. \<open>parseSimpleTLSCertificate\<close> drops the error and keeps the pointer,
  which is nil (\<open>None\<close>) when the decoder failed.
\<close>

type_synonym decoder = "byte list \<Rightarrow> error + Certificate"

definition parseSimpleTLSCertificate :: "decoder \<Rightarrow> SimpleCertificate \<Rightarrow> Certificate option" where
  "parseSimpleTLSCertificate x509_ParseCertificate cert =
    (case x509_ParseCertificate (Raw cert) of
       Inl err \<Rightarrow> None
     | Inr parsed \<Rightarrow> Some parsed)"

definition convertCertificateToResponse :: "Certificate option \<Rightarrow> CertificateResponse" where
  "convertCertificateToResponse cert =
    (case cert of
       None \<Rightarrow>
         \<lparr> CertificateResponse.DNSNames = [], Emails = [], IssuerCommonName = [],
           IssuerOrganization = [], SubjectCommonName = [], SubjectOrganization = [] \<rparr>
     | Some k \<Rightarrow>
         \<lparr> CertificateResponse.DNSNames = Certificate.DNSNames k,
           Emails = EmailAddresses k,
           IssuerCommonName = CommonName (Issuer k),
           IssuerOrganization = Organization (Issuer k),
           SubjectCommonName = CommonName (Subject k),
           SubjectOrganization = Organization (Subject k) \<rparr>)"

section \<open>Connect\<close>

subsection \<open>The world outside the package\<close>

text \<open>
  One call of \<open>Connect\<close> talks to the dialer, the TLS engine and the decoder, and races
  the handshake against a timer. What these do is given by a \<open>world\<close>:
  \<^item> \<open>Dial\<close>: the result of \<open>dialer.Dial(network, address)\<close>, and how long the call takes;
  \<^item> \<open>Handshake\<close>: the error \<open>tlsConn.Handshake()\<close> returns for a connection and the
    configuration behind the pointer given to \<open>tls.Client\<close>, and how long the call takes
    (\<open>None\<close>: it never returns);
  \<^item> \<open>GetHandshakeLog\<close>: the log of that handshake;
  \<^item> \<open>timer_wins_tie\<close>: which of the two writes reaches the channel first when the timer
    fires at the very instant the handshake returns.
  Time is counted in nanoseconds from the entry into \<open>Connect\<close>; the statements of
  \<open>Connect\<close> themselves take no time.
\<close>

datatype Conn = Conn string string

record world =
  Dial :: "string \<Rightarrow> string \<Rightarrow> error + Conn"
  dial_duration :: nat
  Handshake :: "Conn \<Rightarrow> Config \<Rightarrow> error option"
  handshake_duration :: "nat option"
  GetHandshakeLog :: "Conn \<Rightarrow> Config \<Rightarrow> ServerHandshake"
  ParseCertificate :: decoder
  timer_wins_tie :: bool

text \<open>
  What a call does besides returning: the library calls it makes, in program order, and
  the values written into \<open>errChannel\<close>, each with the time of the write, in the order
  the channel receives them.
\<close>

datatype action =
    MakeChan nat
  | AfterFunc "64 word"
  | CallDial string string
  | CallTLSClient Conn addr
  | CallHandshake
  | GoHandshake
  | ChanRecv
  | CallGetHandshakeLog
  | ConnClose

datatype outcome =
    Returned "Response option" "error option"
  | Panicked
  | Blocked

record run =
  result :: outcome
  heap_after :: heap
  trace :: "action list"
  chan_writes :: "(nat \<times> error option) list"

subsection \<open>Library functions on strings\<close>

text \<open>
  \<open>net.JoinHostPort\<close> brackets a host that contains a colon. \<open>strings.LastIndex\<close> is
  modelled for a separator of one character, which is how \<open>Connect\<close> calls it; it
  returns \<open>-1\<close> when the character does not occur.
\<close>

definition JoinHostPort :: "string \<Rightarrow> string \<Rightarrow> string" where
  "JoinHostPort host port =
    (if CHR '':'' \<in> set host then ''['' @ host @ '']:'' @ port else host @ '':'' @ port)"

fun LastIndex :: "string \<Rightarrow> char \<Rightarrow> int" where
  "LastIndex [] c = - 1"
| "LastIndex (x # xs) c =
    (let r = LastIndex xs c in if r \<noteq> - 1 then r + 1 else if x = c then 0 else - 1)"

subsection \<open>The race\<close>

text \<open>
  \<open>time.AfterFunc(timeout, f)\<close> is called on entry, at time 0, and nothing stops the
  timer: \<open>f\<close> writes a \<open>timeoutError\<close> into the channel once \<open>timeout\<close> has elapsed (at
  once when the duration is negative). The channel has two slots, so neither writer
  ever blocks.
\<close>

definition timer_write :: "64 word \<Rightarrow> nat \<times> error option" where
  "timer_write timeout = (nat (sint timeout), Some (TimeoutErr timeoutError))"

text \<open>
  The goroutine started after the dial writes the handshake's error when the handshake
  returns, at \<open>dial_duration + handshake_duration\<close>.
\<close>

definition handshake_write :: "world \<Rightarrow> Conn \<Rightarrow> Config \<Rightarrow> (nat \<times> error option) option" where
  "handshake_write w conn cfg =
    (case handshake_duration w of
       None \<Rightarrow> None
     | Some d \<Rightarrow> Some (dial_duration w + d, Handshake w conn cfg))"

definition arrivals ::
  "bool \<Rightarrow> nat \<times> error option \<Rightarrow> (nat \<times> error option) option \<Rightarrow> (nat \<times> error option) list" where
  "arrivals tie tw hw =
    (case hw of
       None \<Rightarrow> [tw]
     | Some hs \<Rightarrow> if fst tw < fst hs \<or> (fst tw = fst hs \<and> tie) then [tw, hs] else [hs, tw])"

text \<open>
  Lines 113-120. With no timeout the handshake is called in place, and \<open>Connect\<close> waits
  for it for ever if it never returns. Otherwise the handshake runs in a goroutine and
  \<open>err = <-errChannel\<close> takes the first value the channel received. The result is the
  value of \<open>err\<close> (\<open>None\<close>: the statement never completes), the calls made and the writes
  into the channel.
\<close>

definition race ::
  "world \<Rightarrow> 64 word \<Rightarrow> Conn \<Rightarrow> Config
     \<Rightarrow> error option option \<times> action list \<times> (nat \<times> error option) list" where
  "race w timeout conn cfg =
    (if timeout = 0 then
       (case handshake_duration w of
          None \<Rightarrow> (None, [CallHandshake], [])
        | Some d \<Rightarrow> (Some (Handshake w conn cfg), [CallHandshake], []))
     else
       (let writes = arrivals (timer_wins_tie w) (timer_write timeout) (handshake_write w conn cfg)
        in (case writes of
              [] \<Rightarrow> (None, [GoHandshake, ChanRecv], writes)
            | first # rest \<Rightarrow> (Some (snd first), [GoHandshake, ChanRecv], writes))))"

subsection \<open>Assembling the response\<close>

text \<open>
  Lines 127-140: the version token (the empty string for a key the table lacks, as a Go
  map lookup gives), the leaf, and the chain appended certificate by certificate. The
  version in the log is a 16-bit number already, so the conversion \<open>uint16(...)\<close> of
  line 129 leaves it as it is.
\<close>

definition certificateRecord :: "world \<Rightarrow> SimpleCertificate \<Rightarrow> CertificateResponse" where
  "certificateRecord w cert =
     convertCertificateToResponse (parseSimpleTLSCertificate (ParseCertificate w) cert)"

definition assemble :: "world \<Rightarrow> ServerHandshake \<Rightarrow> string \<Rightarrow> string \<Rightarrow> Response" where
  "assemble w hl hostname port =
    (let tlsVersion =
           (case versionToTLSVersionString (ServerHello.Version (ServerHello hl)) of
              None \<Rightarrow> []
            | Some s \<Rightarrow> s);
         response =
           \<lparr> Host = hostname,
             Port = port,
             Response.Version = tlsVersion,
             TLSConnection = ''ztls'',
             Leaf = certificateRecord w (Certificate (ServerCertificates hl)),
             Response.Chain = [] \<rparr>
     in foldl (\<lambda>response cert.
                 response\<lparr> Response.Chain := Response.Chain response @ [certificateRecord w cert] \<rparr>)
          response (Certificates.Chain (ServerCertificates hl)))"

subsection \<open>Connect\<close>

text \<open>
  Lines 99-103: the dialed address up to its last colon.
\<close>

definition hostnameValue :: "string \<Rightarrow> string" where
  "hostnameValue address =
    (let colonPos = LastIndex address (CHR '':'');
         colonPos = (if colonPos = - 1 then int (length address) else colonPos)
     in take (nat colonPos) address)"

text \<open>
  Lines 121-141: the sentinel \<open>tls.ErrCertsOnly\<close> is turned into nil; any other error is
  wrapped and returned; otherwise the log is read and the response assembled. The deferred
  \<open>conn.Close()\<close> is the last call on the way out.
\<close>

definition finish ::
  "world \<Rightarrow> heap \<Rightarrow> string \<Rightarrow> string \<Rightarrow> action list \<Rightarrow> (nat \<times> error option) list
     \<Rightarrow> Conn \<Rightarrow> Config \<Rightarrow> error option \<Rightarrow> run" where
  "finish w h hostname port tr writes conn engineConfig err0 =
    (let err = (if err0 = Some ErrCertsOnly then None else err0)
     in case err of
          Some e \<Rightarrow>
            \<lparr> result = Returned None (errors_Wrap (Some e) ''could not do tls handshake''),
              heap_after = h, trace = tr @ [ConnClose], chan_writes = writes \<rparr>
        | None \<Rightarrow>
            \<lparr> result = Returned
                (Some (assemble w (GetHandshakeLog w conn engineConfig) hostname port)) None,
              heap_after = h, trace = tr @ [CallGetHandshakeLog, ConnClose],
              chan_writes = writes \<rparr>)"

text \<open>
  Lines 112-120: the engine is given the connection and the pointer \<open>c.tlsConfig\<close>, and
  works with the configuration behind that pointer.
\<close>

definition handshake ::
  "world \<Rightarrow> heap \<Rightarrow> Client \<Rightarrow> string \<Rightarrow> string \<Rightarrow> 64 word
     \<Rightarrow> action list \<Rightarrow> (nat \<times> error option) list \<Rightarrow> Conn \<Rightarrow> run" where
  "handshake w h c hostname port timeout tr timer conn =
    (let tr1 = tr @ [CallTLSClient conn (tlsConfig c)]
     in case deref h (tlsConfig c) of
          None \<Rightarrow>
            \<lparr> result = Panicked, heap_after = h, trace = tr1 @ [ConnClose], chan_writes = timer \<rparr>
        | Some engineConfig \<Rightarrow>
            (case race w timeout conn engineConfig of
               (None, tr2, writes) \<Rightarrow>
                 \<lparr> result = Blocked, heap_after = h, trace = tr1 @ tr2, chan_writes = writes \<rparr>
             | (Some err0, tr2, writes) \<Rightarrow>
                 finish w h hostname port (tr1 @ tr2) writes conn engineConfig err0))"

text \<open>
  Lines 97-110, after a successful dial. \<open>config\<close> starts as the client's pointer; when
  the configuration behind it has no server name, a copy with the derived name is
  allocated and \<open>config\<close> points to the copy. The pair is the store and \<open>config\<close> after
  line 110. Line 112 follows in \<open>handshake\<close>, which does not receive \<open>config\<close>.
\<close>

definition localConfig :: "heap \<Rightarrow> Client \<Rightarrow> Config \<Rightarrow> string \<Rightarrow> heap \<times> addr" where
  "localConfig h c base address =
    (if Config.ServerName base = []
     then alloc h (base\<lparr> Config.ServerName := hostnameValue address \<rparr>)
     else (h, tlsConfig c))"

definition Connected ::
  "world \<Rightarrow> heap \<Rightarrow> Client \<Rightarrow> string \<Rightarrow> string \<Rightarrow> string \<Rightarrow> 64 word
     \<Rightarrow> action list \<Rightarrow> (nat \<times> error option) list \<Rightarrow> Conn \<Rightarrow> run" where
  "Connected w h c hostname port address timeout tr timer conn =
    (case deref h (tlsConfig c) of
       None \<Rightarrow>
         \<lparr> result = Panicked, heap_after = h, trace = tr @ [ConnClose], chan_writes = timer \<rparr>
     | Some base \<Rightarrow>
         (case localConfig h c base address of
            (h', config) \<Rightarrow> handshake w h' c hostname port timeout tr timer conn))"

text \<open>
  Lines 82-96: the address, the channel and the timer when the timeout is not zero, the
  dial. A failed dial returns at once; the timer, already scheduled, still fires.
\<close>

definition Connect :: "world \<Rightarrow> heap \<Rightarrow> Client \<Rightarrow> string \<Rightarrow> string \<Rightarrow> run" where
  "Connect w h c hostname port =
    (let address = JoinHostPort hostname port;
         timeout = Dialer.Timeout (dialer c);
         tr = (if timeout \<noteq> 0 then [MakeChan 2, AfterFunc timeout] else [])
                @ [CallDial ''tcp'' address];
         timer = (if timeout \<noteq> 0 then [timer_write timeout] else [])
     in case Dial w ''tcp'' address of
          Inl err \<Rightarrow>
            \<lparr> result = Returned None (errors_Wrap (Some err) ''could not connect to address''),
              heap_after = h, trace = tr, chan_writes = timer \<rparr>
        | Inr conn \<Rightarrow> Connected w h c hostname port address timeout tr timer conn)"

subsection \<open>Who wins the race\<close>

text \<open>
  The timer's write is the first in the channel when the timeout is not zero and the
  handshake never returns, or returns later than the timer fires (counted from the
  entry into \<open>Connect\<close>, so after the dial), or at the same instant with the tie going
  to the timer. The handshake's error is the one \<open>Connect\<close> goes on with when the
  handshake returns and either there is no timeout or its write is the first.
\<close>

definition timer_first :: "world \<Rightarrow> 64 word \<Rightarrow> bool" where
  "timer_first w timeout =
    (timeout \<noteq> 0 \<and>
     (case handshake_duration w of
        None \<Rightarrow> True
      | Some d \<Rightarrow> nat (sint timeout) < dial_duration w + d
                  \<or> (nat (sint timeout) = dial_duration w + d \<and> timer_wins_tie w)))"

definition handshake_first :: "world \<Rightarrow> 64 word \<Rightarrow> bool" where
  "handshake_first w timeout =
    (case handshake_duration w of
       None \<Rightarrow> False
     | Some d \<Rightarrow> timeout = 0
                 \<or> dial_duration w + d < nat (sint timeout)
                 \<or> (dial_duration w + d = nat (sint timeout) \<and> \<not> timer_wins_tie w))"

section \<open>Example inputs\<close>

text \<open>
  A server that answers the dial after 3 time units and completes the handshake 5 units
  later with TLS 1.2, a leaf the decoder reads and a chain of two certificates, the
  second of which the decoder rejects; and a client built with no server name.
\<close>

definition example_certificate :: Certificate where
  "example_certificate =
    \<lparr> Certificate.DNSNames = [''example.com''],
      EmailAddresses = [''admin@example.com''],
      Issuer = \<lparr> CommonName = ''Example CA'', Organization = [''Example Trust''] \<rparr>,
      Subject = \<lparr> CommonName = ''example.com'', Organization = [''Example Inc''] \<rparr> \<rparr>"

definition example_decoder :: decoder where
  "example_decoder raw =
    (if raw = [48, 130] then Inr example_certificate
     else Inl (LibraryError ''asn1: syntax error''))"

definition example_log :: ServerHandshake where
  "example_log =
    \<lparr> ServerHello = \<lparr> ServerHello.Version = VersionTLS12 \<rparr>,
      ServerCertificates =
        \<lparr> Certificate = \<lparr> Raw = [48, 130] \<rparr>,
          Certificates.Chain = [\<lparr> Raw = [48, 130] \<rparr>, \<lparr> Raw = [255] \<rparr>] \<rparr> \<rparr>"

definition example_world :: world where
  "example_world =
    \<lparr> Dial = (\<lambda>network address. Inr (Conn network address)),
      dial_duration = 3,
      Handshake = (\<lambda>conn cfg. None),
      handshake_duration = Some 5,
      GetHandshakeLog = (\<lambda>conn cfg. example_log),
      ParseCertificate = example_decoder,
      timer_wins_tie = False \<rparr>"

definition example_config :: Config where
  "example_config =
    \<lparr> Config.CertsOnly = False, Config.MinVersion = VersionSSL30,
      Config.MaxVersion = VersionTLS12, InsecureSkipVerify = True,
      Config.ServerName = [] \<rparr>"

definition example_client :: "64 word \<Rightarrow> Client" where
  "example_client timeout = \<lparr> dialer = \<lparr> Dialer.Timeout = timeout \<rparr>, tlsConfig = 0 \<rparr>"

text \<open>
  An engine that, like Go's TLS client, refuses to start when it is asked to verify the
  server and its configuration names no server.
\<close>

definition example_strict_engine :: "Conn \<Rightarrow> Config \<Rightarrow> error option" where
  "example_strict_engine conn cfg =
    (if Config.ServerName cfg = [] \<and> \<not> InsecureSkipVerify cfg
     then Some (LibraryError ''tls: either ServerName or InsecureSkipVerify must be specified'')
     else None)"

section \<open>Lemmas\<close>

subsection \<open>New\<close>

lemma versionStringToTLSVersion_None:
  "(versionStringToTLSVersion s = None) = (s \<notin> version_tokens)"
  by (simp add: versionStringToTLSVersion_def version_tokens_def)

lemma New_MaxVersion_invalid:
  assumes "Options.MaxVersion options \<noteq> []" and "Options.MaxVersion options \<notin> version_tokens"
  shows "snd (New_MaxVersion h c options) =
           (None, Some (Errorf (''invalid max version specified: '' @ Options.MaxVersion options)))"
proof -
  from assms(2) have "versionStringToTLSVersion (Options.MaxVersion options) = None"
    by (simp add: versionStringToTLSVersion_None)
  with assms(1) show ?thesis by (simp add: New_MaxVersion_def)
qed

lemma New_MaxVersion_valid:
  assumes "Options.MaxVersion options = [] \<or> Options.MaxVersion options \<in> version_tokens"
  shows "snd (New_MaxVersion h c options) = (Some c, None)"
proof (cases "Options.MaxVersion options = []")
  case True
  then show ?thesis by (simp add: New_MaxVersion_def)
next
  case False
  with assms have "versionStringToTLSVersion (Options.MaxVersion options) \<noteq> None"
    by (simp add: versionStringToTLSVersion_None)
  then obtain v where "versionStringToTLSVersion (Options.MaxVersion options) = Some v"
    by blast
  with False show ?thesis by (simp add: New_MaxVersion_def)
qed

lemma New_MinVersion_invalid:
  assumes "Options.MinVersion options \<noteq> []" and "Options.MinVersion options \<notin> version_tokens"
  shows "snd (New_MinVersion h c options) =
           (None, Some (Errorf (''invalid min version specified: '' @ Options.MinVersion options)))"
proof -
  from assms(2) have "versionStringToTLSVersion (Options.MinVersion options) = None"
    by (simp add: versionStringToTLSVersion_None)
  with assms(1) show ?thesis by (simp add: New_MinVersion_def)
qed

lemma New_MinVersion_valid:
  assumes "Options.MinVersion options = [] \<or> Options.MinVersion options \<in> version_tokens"
  shows "\<exists>h'. New_MinVersion h c options = New_MaxVersion h' c options"
proof (cases "Options.MinVersion options = []")
  case True
  then show ?thesis by (auto simp: New_MinVersion_def)
next
  case False
  with assms have "versionStringToTLSVersion (Options.MinVersion options) \<noteq> None"
    by (simp add: versionStringToTLSVersion_None)
  then obtain v where "versionStringToTLSVersion (Options.MinVersion options) = Some v"
    by blast
  with False show ?thesis by (auto simp: New_MinVersion_def)
qed

lemma New_unfold:
  "\<exists>h. New h0 options =
     New_MinVersion h
       \<lparr> dialer = \<lparr> Dialer.Timeout = word_of_int (Options.Timeout options) * Second \<rparr>,
         tlsConfig = length h0 \<rparr> options"
  unfolding New_def alloc_def Let_def prod.case by (rule exI) (rule refl)

subsection \<open>The stages of Connect\<close>

lemma deref_alloc_old:
  "deref h a = Some v \<Longrightarrow> deref (fst (alloc h x)) a = Some v"
  by (auto simp: deref_def alloc_def nth_append split: if_splits)

lemma localConfig_keeps:
  "deref h a = Some v \<Longrightarrow> deref (fst (localConfig h c base address)) a = Some v"
  by (simp add: localConfig_def deref_alloc_old)

lemma localConfig_heap:
  "fst (localConfig h c base address) =
     (if Config.ServerName base = [] then h @ [base\<lparr> Config.ServerName := hostnameValue address \<rparr>] else h)"
  by (simp add: localConfig_def alloc_def)

lemma Connect_dial_failed:
  assumes "Dial w ''tcp'' (JoinHostPort hostname port) = Inl err"
  shows "Connect w h c hostname port =
    \<lparr> result = Returned None (Some (Wrap err ''could not connect to address'')),
      heap_after = h,
      trace = (if Dialer.Timeout (dialer c) \<noteq> 0 then [MakeChan 2, AfterFunc (Dialer.Timeout (dialer c))] else [])
                @ [CallDial ''tcp'' (JoinHostPort hostname port)],
      chan_writes = (if Dialer.Timeout (dialer c) \<noteq> 0 then [timer_write (Dialer.Timeout (dialer c))] else []) \<rparr>"
  using assms by (simp add: Connect_def Let_def errors_Wrap_def)

lemma Connect_dialed:
  assumes "Dial w ''tcp'' (JoinHostPort hostname port) = Inr conn"
    and "deref h (tlsConfig c) = Some base"
  shows "Connect w h c hostname port =
    handshake w (fst (localConfig h c base (JoinHostPort hostname port))) c hostname port
      (Dialer.Timeout (dialer c))
      ((if Dialer.Timeout (dialer c) \<noteq> 0 then [MakeChan 2, AfterFunc (Dialer.Timeout (dialer c))] else [])
                @ [CallDial ''tcp'' (JoinHostPort hostname port)])
      (if Dialer.Timeout (dialer c) \<noteq> 0 then [timer_write (Dialer.Timeout (dialer c))] else [])
      conn"
  using assms by (simp add: Connect_def Connected_def Let_def split: prod.splits)

lemma handshake_received:
  assumes "deref h (tlsConfig c) = Some cfg"
    and "fst (race w timeout conn cfg) = Some err0"
  shows "handshake w h c hostname port timeout tr timer conn =
    finish w h hostname port (tr @ [CallTLSClient conn (tlsConfig c)] @ fst (snd (race w timeout conn cfg)))
      (snd (snd (race w timeout conn cfg))) conn cfg err0"
proof -
  obtain r tr2 writes where r: "race w timeout conn cfg = (r, tr2, writes)"
    by (cases "race w timeout conn cfg") auto
  with assms(2) have "r = Some err0" by simp
  with r assms(1) show ?thesis by (simp add: handshake_def Let_def)
qed

lemma race_trace:
  "fst (snd (race w timeout conn cfg)) = (if timeout = 0 then [CallHandshake] else [GoHandshake, ChanRecv])"
  by (simp add: race_def Let_def arrivals_def split: option.splits list.splits)

lemma race_writes:
  "snd (snd (race w timeout conn cfg)) =
     (if timeout = 0 then [] else arrivals (timer_wins_tie w) (timer_write timeout) (handshake_write w conn cfg))"
  by (simp add: race_def Let_def arrivals_def split: option.splits list.splits)

lemma handshake_blocked:
  assumes "deref h (tlsConfig c) = Some cfg"
    and "fst (race w timeout conn cfg) = None"
  shows "result (handshake w h c hostname port timeout tr timer conn) = Blocked"
proof -
  obtain r tr2 writes where r: "race w timeout conn cfg = (r, tr2, writes)"
    by (cases "race w timeout conn cfg") auto
  with assms(2) have "r = None" by simp
  with r assms(1) show ?thesis by (simp add: handshake_def Let_def)
qed

lemma race_timer_first:
  "timer_first w timeout \<Longrightarrow> fst (race w timeout conn cfg) = Some (Some (TimeoutErr timeoutError))"
  by (auto simp: timer_first_def race_def Let_def arrivals_def timer_write_def handshake_write_def
      split: option.splits)

lemma race_handshake_first:
  "handshake_first w timeout \<Longrightarrow> fst (race w timeout conn cfg) = Some (Handshake w conn cfg)"
  by (auto simp: handshake_first_def race_def Let_def arrivals_def timer_write_def handshake_write_def
      split: option.splits)

lemma finish_result:
  "result (finish w h hostname port tr writes conn cfg err0) =
    (if err0 = None \<or> err0 = Some ErrCertsOnly
     then Returned (Some (assemble w (GetHandshakeLog w conn cfg) hostname port)) None
     else Returned None (Some (Wrap (the err0) ''could not do tls handshake'')))"
  by (cases err0) (auto simp: finish_def Let_def errors_Wrap_def)

lemma finish_heap: "heap_after (finish w h hostname port tr writes conn cfg err0) = h"
  by (cases err0) (auto simp: finish_def Let_def)

lemma assemble_fold:
  "foldl (\<lambda>response cert. response\<lparr> Response.Chain := Response.Chain response @ [f cert] \<rparr>) r xs
     = r\<lparr> Response.Chain := Response.Chain r @ map f xs \<rparr>"
  by (induction xs arbitrary: r) simp_all

lemma assemble_eq:
  "assemble w hl hostname port =
     \<lparr> Host = hostname, Port = port,
       Response.Version = (case versionToTLSVersionString (ServerHello.Version (ServerHello hl)) of
              None \<Rightarrow> [] | Some s \<Rightarrow> s),
       TLSConnection = ''ztls'',
       Leaf = certificateRecord w (Certificate (ServerCertificates hl)),
       Response.Chain = map (certificateRecord w) (Certificates.Chain (ServerCertificates hl)) \<rparr>"
  by (simp add: assemble_def Let_def assemble_fold)

lemma Connect_heap_dialed:
  assumes "Dial w ''tcp'' (JoinHostPort hostname port) = Inr conn"
    and "deref h (tlsConfig c) = Some base"
  shows "heap_after (Connect w h c hostname port)
           = fst (localConfig h c base (JoinHostPort hostname port))"
proof -
  let ?h' = "fst (localConfig h c base (JoinHostPort hostname port))"
  let ?t = "Dialer.Timeout (dialer c)"
  have d: "deref ?h' (tlsConfig c) = Some base"
    using assms(2) by (rule localConfig_keeps)
  obtain r tr2 writes where r: "race w ?t conn base = (r, tr2, writes)"
    by (cases "race w ?t conn base") auto
  show ?thesis
    unfolding Connect_dialed [OF assms]
    using d r by (cases r) (simp_all add: handshake_def Let_def finish_heap)
qed

lemma Connect_heap_panicked:
  assumes "Dial w ''tcp'' (JoinHostPort hostname port) = Inr conn"
    and "deref h (tlsConfig c) = None"
  shows "heap_after (Connect w h c hostname port) = h"
  using assms by (simp add: Connect_def Connected_def Let_def)

lemma Connect_success:
  assumes "Dial w ''tcp'' (JoinHostPort hostname port) = Inr conn"
    and "deref h (tlsConfig c) = Some base"
    and "result (Connect w h c hostname port) = Returned (Some response) None"
  shows "response = assemble w (GetHandshakeLog w conn base) hostname port"
proof -
  let ?h' = "fst (localConfig h c base (JoinHostPort hostname port))"
  let ?t = "Dialer.Timeout (dialer c)"
  have d: "deref ?h' (tlsConfig c) = Some base"
    using assms(2) by (rule localConfig_keeps)
  show ?thesis
  proof (cases "fst (race w ?t conn base)")
    case None
    with assms d show ?thesis
      by (simp add: Connect_dialed handshake_blocked)
  next
    case (Some err0)
    with assms d show ?thesis
      by (simp add: Connect_dialed handshake_received finish_result split: if_splits)
  qed
qed

lemma Connect_handshake_first:
  assumes "Dial w ''tcp'' (JoinHostPort hostname port) = Inr conn"
    and "deref h (tlsConfig c) = Some base"
    and "handshake_first w (Dialer.Timeout (dialer c))"
  shows "result (Connect w h c hostname port) =
    (if Handshake w conn base = None \<or> Handshake w conn base = Some ErrCertsOnly
     then Returned (Some (assemble w (GetHandshakeLog w conn base) hostname port)) None
     else Returned None (Some (Wrap (the (Handshake w conn base)) ''could not do tls handshake'')))"
proof -
  let ?h' = "fst (localConfig h c base (JoinHostPort hostname port))"
  have d: "deref ?h' (tlsConfig c) = Some base"
    using assms(2) by (rule localConfig_keeps)
  have r: "fst (race w (Dialer.Timeout (dialer c)) conn base) = Some (Handshake w conn base)"
    using assms(3) by (rule race_handshake_first)
  show ?thesis
    unfolding Connect_dialed [OF assms(1,2)] handshake_received [OF d r]
    by (rule finish_result)
qed

lemma Connect_timer_first:
  assumes "Dial w ''tcp'' (JoinHostPort hostname port) = Inr conn"
    and "deref h (tlsConfig c) = Some base"
    and "timer_first w (Dialer.Timeout (dialer c))"
  shows "result (Connect w h c hostname port) =
     Returned None (Some (Wrap (TimeoutErr timeoutError) ''could not do tls handshake''))"
proof -
  let ?h' = "fst (localConfig h c base (JoinHostPort hostname port))"
  have d: "deref ?h' (tlsConfig c) = Some base"
    using assms(2) by (rule localConfig_keeps)
  have r: "fst (race w (Dialer.Timeout (dialer c)) conn base) = Some (Some (TimeoutErr timeoutError))"
    using assms(3) by (rule race_timer_first)
  show ?thesis
    unfolding Connect_dialed [OF assms(1,2)] handshake_received [OF d r]
    by (simp add: finish_result)
qed

lemma versionToTLSVersionString_eq:
  "versionToTLSVersionString v =
     (if v = VersionSSL30 then Some ''ssl30''
      else if v = VersionTLS10 then Some ''tls10''
      else if v = VersionTLS11 then Some ''tls11''
      else if v = VersionTLS12 then Some ''tls12''
      else None)"
  by (simp add: versionToTLSVersionString_def VersionSSL30_def VersionTLS10_def
      VersionTLS11_def VersionTLS12_def)

lemma Connect_trace_dialed:
  assumes "Dial w ''tcp'' (JoinHostPort hostname port) = Inr conn"
    and "deref h (tlsConfig c) = Some base"
  shows "\<exists>rest. trace (Connect w h c hostname port) =
           (if Dialer.Timeout (dialer c) \<noteq> 0
            then [MakeChan 2, AfterFunc (Dialer.Timeout (dialer c))] else [])
           @ [CallDial ''tcp'' (JoinHostPort hostname port), CallTLSClient conn (tlsConfig c)]
           @ (if Dialer.Timeout (dialer c) = 0 then [CallHandshake] else [GoHandshake, ChanRecv])
           @ rest
         \<and> set rest \<subseteq> {CallGetHandshakeLog, ConnClose}"
proof -
  let ?h' = "fst (localConfig h c base (JoinHostPort hostname port))"
  let ?t = "Dialer.Timeout (dialer c)"
  have d: "deref ?h' (tlsConfig c) = Some base"
    using assms(2) by (rule localConfig_keeps)
  obtain r tr2 writes where r: "race w ?t conn base = (r, tr2, writes)"
    by (cases "race w ?t conn base") auto
  have tr2: "tr2 = (if ?t = 0 then [CallHandshake] else [GoHandshake, ChanRecv])"
    using race_trace [of w ?t conn base] r by simp
  show ?thesis
  proof (cases r)
    case None
    with r d tr2 show ?thesis
      unfolding Connect_dialed [OF assms]
      by (simp add: handshake_def Let_def)
  next
    case (Some err0)
    with r d tr2 show ?thesis
      unfolding Connect_dialed [OF assms]
      by (cases "if err0 = Some ErrCertsOnly then None else err0")
         (simp_all add: handshake_def finish_def Let_def)
  qed
qed

lemma Connect_panicked:
  assumes "Dial w ''tcp'' (JoinHostPort hostname port) = Inr conn"
    and "deref h (tlsConfig c) = None"
  shows "Connect w h c hostname port =
    \<lparr> result = Panicked, heap_after = h,
      trace = (if Dialer.Timeout (dialer c) \<noteq> 0
               then [MakeChan 2, AfterFunc (Dialer.Timeout (dialer c))] else [])
              @ [CallDial ''tcp'' (JoinHostPort hostname port), ConnClose],
      chan_writes = (if Dialer.Timeout (dialer c) \<noteq> 0
                     then [timer_write (Dialer.Timeout (dialer c))] else []) \<rparr>"
  using assms by (simp add: Connect_def Connected_def Let_def)

lemma Connect_writes_dialed:
  assumes "Dial w ''tcp'' (JoinHostPort hostname port) = Inr conn"
    and "deref h (tlsConfig c) = Some base"
  shows "chan_writes (Connect w h c hostname port) =
     (if Dialer.Timeout (dialer c) = 0 then []
      else arrivals (timer_wins_tie w) (timer_write (Dialer.Timeout (dialer c)))
             (handshake_write w conn base))"
proof -
  let ?h' = "fst (localConfig h c base (JoinHostPort hostname port))"
  let ?t = "Dialer.Timeout (dialer c)"
  have d: "deref ?h' (tlsConfig c) = Some base"
    using assms(2) by (rule localConfig_keeps)
  obtain r tr2 writes where r: "race w ?t conn base = (r, tr2, writes)"
    by (cases "race w ?t conn base") auto
  have wr: "writes = (if ?t = 0 then []
      else arrivals (timer_wins_tie w) (timer_write ?t) (handshake_write w conn base))"
    using race_writes [of w ?t conn base] r by simp
  show ?thesis
  proof (cases r)
    case None
    with r d wr show ?thesis
      unfolding Connect_dialed [OF assms]
      by (simp add: handshake_def Let_def)
  next
    case (Some err0)
    with r d wr show ?thesis
      unfolding Connect_dialed [OF assms]
      by (cases "if err0 = Some ErrCertsOnly then None else err0")
         (simp_all add: handshake_def finish_def Let_def)
  qed
qed

lemma timer_in_arrivals: "tw \<in> set (arrivals tie tw hw)"
  by (simp add: arrivals_def split: option.splits)

lemma Connect_trace_start:
  "Dialer.Timeout (dialer c) \<noteq> 0 \<Longrightarrow>
   take 3 (trace (Connect w h c hostname port))
     = [MakeChan 2, AfterFunc (Dialer.Timeout (dialer c)),
        CallDial ''tcp'' (JoinHostPort hostname port)]"
proof (cases "Dial w ''tcp'' (JoinHostPort hostname port)")
  case (Inl err)
  assume "Dialer.Timeout (dialer c) \<noteq> 0"
  with Inl show ?thesis by (simp add: Connect_dial_failed)
next
  case (Inr conn)
  assume t: "Dialer.Timeout (dialer c) \<noteq> 0"
  show ?thesis
  proof (cases "deref h (tlsConfig c)")
    case None
    with Inr t show ?thesis by (simp add: Connect_panicked)
  next
    case (Some base)
    from Connect_trace_dialed [OF Inr Some] t show ?thesis by auto
  qed
qed

lemma Connect_timer_fires:
  "Dialer.Timeout (dialer c) \<noteq> 0 \<Longrightarrow>
   timer_write (Dialer.Timeout (dialer c)) \<in> set (chan_writes (Connect w h c hostname port))"
proof (cases "Dial w ''tcp'' (JoinHostPort hostname port)")
  case (Inl err)
  assume "Dialer.Timeout (dialer c) \<noteq> 0"
  with Inl show ?thesis by (simp add: Connect_dial_failed)
next
  case (Inr conn)
  assume t: "Dialer.Timeout (dialer c) \<noteq> 0"
  show ?thesis
  proof (cases "deref h (tlsConfig c)")
    case None
    with Inr t show ?thesis by (simp add: Connect_panicked)
  next
    case (Some base)
    with Inr t show ?thesis by (simp add: Connect_writes_dialed timer_in_arrivals)
  qed
qed

lemma Connect_no_timeout:
  assumes "Dialer.Timeout (dialer c) = 0"
  shows "set (trace (Connect w h c hostname port))
           \<subseteq> {CallDial ''tcp'' (JoinHostPort hostname port), CallHandshake,
               CallGetHandshakeLog, ConnClose}
             \<union> {a. \<exists>conn p. a = CallTLSClient conn p}"
    and "chan_writes (Connect w h c hostname port) = []"
proof -
  have "set (trace (Connect w h c hostname port))
           \<subseteq> {CallDial ''tcp'' (JoinHostPort hostname port), CallHandshake,
               CallGetHandshakeLog, ConnClose}
             \<union> {a. \<exists>conn p. a = CallTLSClient conn p}
        \<and> chan_writes (Connect w h c hostname port) = []"
  proof (cases "Dial w ''tcp'' (JoinHostPort hostname port)")
    case (Inl err)
    with assms show ?thesis by (simp add: Connect_dial_failed)
  next
    case (Inr conn)
    show ?thesis
    proof (cases "deref h (tlsConfig c)")
      case None
      with Inr assms show ?thesis by (simp add: Connect_panicked)
    next
      case (Some base)
      from Connect_trace_dialed [OF Inr Some] Connect_writes_dialed [OF Inr Some] assms
      show ?thesis by auto
    qed
  qed
  then show "set (trace (Connect w h c hostname port))
           \<subseteq> {CallDial ''tcp'' (JoinHostPort hostname port), CallHandshake,
               CallGetHandshakeLog, ConnClose}
             \<union> {a. \<exists>conn p. a = CallTLSClient conn p}"
    and "chan_writes (Connect w h c hostname port) = []"
    by simp_all
qed

subsection \<open>The example inputs\<close>

lemma example_dial:
  "Dial example_world ''tcp'' (JoinHostPort ''example.com'' ''443'') = Inr (Conn ''tcp'' ''example.com:443'')"
  by (simp add: example_world_def JoinHostPort_def)

lemma example_deref:
  "deref [example_config] (tlsConfig (example_client t)) = Some example_config"
  by (simp add: deref_def example_client_def)

lemma example_host:
  "hostnameValue (JoinHostPort ''example.com'' ''443'') = ''example.com''"
  by (simp add: hostnameValue_def JoinHostPort_def Let_def)

lemma example_success:
  "result (Connect example_world [example_config] (example_client 0) ''example.com'' ''443'')
     = Returned (Some (assemble example_world example_log ''example.com'' ''443'')) None"
proof -
  have "handshake_first example_world (Dialer.Timeout (dialer (example_client 0)))"
    by (simp add: handshake_first_def example_world_def example_client_def)
  from Connect_handshake_first [OF example_dial example_deref this]
  show ?thesis by (simp add: example_world_def)
qed

section \<open>The claims\<close>

subsection \<open>The configuration given to the engine\<close>

text \<open>
  The pointer handed to \<open>tls.Client\<close> is always the client's own \<open>c.tlsConfig\<close>, and the
  configuration behind it after the call is the base configuration.
\<close>

lemma Connect_engine_pointer:
  assumes "Dial w ''tcp'' (JoinHostPort hostname port) = Inr conn"
    and "deref h (tlsConfig c) = Some base"
  shows "CallTLSClient conn' a \<in> set (trace (Connect w h c hostname port))
           \<longleftrightarrow> conn' = conn \<and> a = tlsConfig c"
proof -
  obtain rest where
    t: "trace (Connect w h c hostname port) =
           (if Dialer.Timeout (dialer c) \<noteq> 0
            then [MakeChan 2, AfterFunc (Dialer.Timeout (dialer c))] else [])
           @ [CallDial ''tcp'' (JoinHostPort hostname port), CallTLSClient conn (tlsConfig c)]
           @ (if Dialer.Timeout (dialer c) = 0 then [CallHandshake] else [GoHandshake, ChanRecv])
           @ rest"
    and r: "set rest \<subseteq> {CallGetHandshakeLog, ConnClose}"
    using Connect_trace_dialed [OF assms] by blast
  from r have "CallTLSClient conn' a \<notin> set rest" by auto
  with t show ?thesis by auto
qed

text \<open>
  C1. The claim asks that, for a base configuration without a server name, the engine
  works with a configuration whose \<open>ServerName\<close> is the host portion of the dialed
  address. The code builds that copy (lines 105-110) and then gives the engine
  \<open>c.tlsConfig\<close> instead of \<open>config\<close> (line 112). At \<open>Connect("example.com", "443")\<close> on a
  client with no server name and verification switched on: the host portion is
  \<open>example.com\<close>; the engine is given pointer 0, the base configuration, whose server
  name is empty; the copy with the name \<open>example.com\<close> sits in cell 1 and is never
  handed to anything. An engine that insists on a server name when it verifies therefore
  fails the handshake.
\<close>

theorem Connect_engine_gets_base_config:
  "hostnameValue (JoinHostPort ''example.com'' ''443'') = ''example.com''
   \<and> trace (Connect example_world [example_config\<lparr> InsecureSkipVerify := False \<rparr>]
              (example_client 0) ''example.com'' ''443'')
       = [CallDial ''tcp'' ''example.com:443'',
          CallTLSClient (Conn ''tcp'' ''example.com:443'') 0,
          CallHandshake, CallGetHandshakeLog, ConnClose]
   \<and> map_option Config.ServerName
         (deref (heap_after (Connect example_world [example_config\<lparr> InsecureSkipVerify := False \<rparr>]
                   (example_client 0) ''example.com'' ''443'')) 0)
       = Some []
   \<and> map_option Config.ServerName
         (deref (heap_after (Connect example_world [example_config\<lparr> InsecureSkipVerify := False \<rparr>]
                   (example_client 0) ''example.com'' ''443'')) 1)
       = Some ''example.com''
   \<and> result (Connect (example_world\<lparr> Handshake := example_strict_engine \<rparr>)
               [example_config\<lparr> InsecureSkipVerify := False \<rparr>]
               (example_client 0) ''example.com'' ''443'')
       = Returned None
           (Some (Wrap (LibraryError ''tls: either ServerName or InsecureSkipVerify must be specified'')
                    ''could not do tls handshake''))"
proof -
  let ?cfg = "example_config\<lparr> InsecureSkipVerify := False \<rparr>"
  let ?r = "Connect example_world [?cfg] (example_client 0) ''example.com'' ''443''"
  let ?w = "example_world\<lparr> Handshake := example_strict_engine \<rparr>"
  have d: "Dial ?w ''tcp'' (JoinHostPort ''example.com'' ''443'') = Inr (Conn ''tcp'' ''example.com:443'')"
    by (simp add: example_world_def JoinHostPort_def)
  have f: "handshake_first ?w (Dialer.Timeout (dialer (example_client 0)))"
    by (simp add: handshake_first_def example_world_def example_client_def)
  have p: "deref [?cfg] (tlsConfig (example_client 0)) = Some ?cfg"
    by (simp add: deref_def example_client_def)
  have n: "Config.ServerName ?cfg = []"
    by (simp add: example_config_def)
  have hp: "heap_after ?r = [?cfg, ?cfg\<lparr> Config.ServerName := ''example.com'' \<rparr>]"
    using Connect_heap_dialed [OF example_dial p] n example_host
    by (simp add: localConfig_heap)
  have tr: "trace ?r = [CallDial ''tcp'' ''example.com:443'',
          CallTLSClient (Conn ''tcp'' ''example.com:443'') 0,
          CallHandshake, CallGetHandshakeLog, ConnClose]"
    by (simp add: Connect_def Connected_def Let_def example_client_def example_world_def
        JoinHostPort_def deref_def localConfig_def alloc_def handshake_def race_def finish_def
        example_config_def)
  have st: "result (Connect ?w [?cfg] (example_client 0) ''example.com'' ''443'')
       = Returned None
           (Some (Wrap (LibraryError ''tls: either ServerName or InsecureSkipVerify must be specified'')
                    ''could not do tls handshake''))"
    using Connect_handshake_first [OF d p f]
    by (simp add: example_strict_engine_def example_config_def)
  from hp tr st example_host show ?thesis
    by (simp add: deref_def example_config_def)
qed

subsection \<open>Timeout\<close>

text \<open>
  C2, as stated, asks for the returned error to be the \<open>timeoutError\<close> itself. With a
  timeout of 7 units, a dial of 3 and a handshake of 5, the timer fires first, and the
  error returned is not the bare \<open>timeoutError\<close> but the wrapper built for every failed
  handshake.
\<close>

theorem Connect_timeout_bare_counterexample:
  "Dialer.Timeout (dialer (example_client 7)) \<noteq> 0
   \<and> Dial example_world ''tcp'' (JoinHostPort ''example.com'' ''443'')
       = Inr (Conn ''tcp'' ''example.com:443'')
   \<and> timer_first example_world (Dialer.Timeout (dialer (example_client 7)))
   \<and> result (Connect example_world [example_config] (example_client 7) ''example.com'' ''443'')
       \<noteq> Returned None (Some (TimeoutErr timeoutError))
   \<and> result (Connect example_world [example_config] (example_client 7) ''example.com'' ''443'')
       = Returned None (Some (Wrap (TimeoutErr timeoutError) ''could not do tls handshake''))"
proof -
  have t: "timer_first example_world (Dialer.Timeout (dialer (example_client 7)))"
    by (simp add: timer_first_def example_world_def example_client_def)
  from Connect_timer_first [OF example_dial example_deref t] t example_dial
  show ?thesis by (simp add: example_client_def)
qed

text \<open>
  C2, amended. When the dial has succeeded, the timeout is not zero and the timer's write
  reaches the channel before the handshake's, \<open>Connect\<close> returns no response and the
  error \<open>errors.Wrap(timeoutError{}, "could not do tls handshake")\<close>: the wrapper of a
  failed handshake, whose cause is the \<open>timeoutError\<close>. The markers \<open>Timeout()\<close> and
  \<open>Temporary()\<close> of that cause are both true, and the message reads
  \<open>could not do tls handshake: tls: DialWithDialer timed out\<close>.
\<close>

theorem Connect_timeout:
  assumes "Dial w ''tcp'' (JoinHostPort hostname port) = Inr conn"
    and "deref h (tlsConfig c) = Some base"
    and "timer_first w (Dialer.Timeout (dialer c))"
  shows "\<exists>err. result (Connect w h c hostname port) = Returned None (Some err)
           \<and> err = Wrap (TimeoutErr timeoutError) ''could not do tls handshake''
           \<and> Cause err = TimeoutErr timeoutError
           \<and> timeoutError_Timeout timeoutError
           \<and> timeoutError_Temporary timeoutError
           \<and> Error err = ''could not do tls handshake: tls: DialWithDialer timed out''"
  using Connect_timer_first [OF assms]
  by (simp add: timeoutError_Timeout_def timeoutError_Temporary_def timeoutError_Error_def)

theorem Connect_timeout_witness:
  "\<exists>err. result (Connect (example_world\<lparr> handshake_duration := None \<rparr>) [example_config]
                    (example_client 1000000000) ''example.com'' ''443'')
            = Returned None (Some err)
         \<and> Cause err = TimeoutErr timeoutError"
proof -
  let ?w = "example_world\<lparr> handshake_duration := None \<rparr>"
  have d: "Dial ?w ''tcp'' (JoinHostPort ''example.com'' ''443'') = Inr (Conn ''tcp'' ''example.com:443'')"
    by (simp add: example_world_def JoinHostPort_def)
  have t: "timer_first ?w (Dialer.Timeout (dialer (example_client 1000000000)))"
    by (simp add: timer_first_def example_client_def)
  from Connect_timeout [OF d example_deref t] show ?thesis by blast
qed

subsection \<open>Certs-only handshakes\<close>

text \<open>
  C3, as stated, speaks of every call in which the engine returns the sentinel, and of a
  populated leaf. Two runs show what the code does instead. With a timeout of 7 units, a
  dial of 3 and a handshake that returns \<open>tls.ErrCertsOnly\<close> after 5 more, the timer's
  write is in the channel at 7 and the sentinel at 8: \<open>Connect\<close> returns the wrapped
  timeout error and no response. With no timeout and a leaf the decoder rejects,
  \<open>Connect\<close> returns a response whose leaf is the zero record.
\<close>

theorem Connect_certs_only_late_counterexample:
  "Dial (example_world\<lparr> Handshake := \<lambda>conn cfg. Some ErrCertsOnly \<rparr>) ''tcp''
       (JoinHostPort ''example.com'' ''443'')
     = Inr (Conn ''tcp'' ''example.com:443'')
   \<and> Handshake (example_world\<lparr> Handshake := \<lambda>conn cfg. Some ErrCertsOnly \<rparr>)
       (Conn ''tcp'' ''example.com:443'') (example_config\<lparr> Config.CertsOnly := True \<rparr>)
     = Some ErrCertsOnly
   \<and> chan_writes (Connect (example_world\<lparr> Handshake := \<lambda>conn cfg. Some ErrCertsOnly \<rparr>)
                    [example_config\<lparr> Config.CertsOnly := True \<rparr>] (example_client 7)
                    ''example.com'' ''443'')
     = [(7, Some (TimeoutErr timeoutError)), (8, Some ErrCertsOnly)]
   \<and> result (Connect (example_world\<lparr> Handshake := \<lambda>conn cfg. Some ErrCertsOnly \<rparr>)
               [example_config\<lparr> Config.CertsOnly := True \<rparr>] (example_client 7)
               ''example.com'' ''443'')
     = Returned None (Some (Wrap (TimeoutErr timeoutError) ''could not do tls handshake''))
   \<and> result (Connect (example_world\<lparr> Handshake := \<lambda>conn cfg. Some ErrCertsOnly,
                                     GetHandshakeLog := \<lambda>conn cfg.
                                       example_log\<lparr> ServerCertificates :=
                                         \<lparr> Certificate = \<lparr> Raw = [255] \<rparr>,
                                           Certificates.Chain = [] \<rparr> \<rparr> \<rparr>)
               [example_config\<lparr> Config.CertsOnly := True \<rparr>] (example_client 0)
               ''example.com'' ''443'')
     = Returned
         (Some \<lparr> Host = ''example.com'', Port = ''443'', Response.Version = ''tls12'',
                 TLSConnection = ''ztls'',
                 Leaf = \<lparr> CertificateResponse.DNSNames = [], Emails = [],
                          IssuerCommonName = [], IssuerOrganization = [],
                          SubjectCommonName = [], SubjectOrganization = [] \<rparr>,
                 Response.Chain = [] \<rparr>)
         None"
proof -
  let ?late = "example_world\<lparr> Handshake := \<lambda>conn cfg. Some ErrCertsOnly \<rparr>"
  let ?bad = "example_world\<lparr> Handshake := \<lambda>conn cfg. Some ErrCertsOnly,
                                     GetHandshakeLog := \<lambda>conn cfg.
                                       example_log\<lparr> ServerCertificates :=
                                         \<lparr> Certificate = \<lparr> Raw = [255] \<rparr>,
                                           Certificates.Chain = [] \<rparr> \<rparr> \<rparr>"
  let ?cfg = "example_config\<lparr> Config.CertsOnly := True \<rparr>"
  let ?conn = "Conn ''tcp'' ''example.com:443''"
  have d: "Dial ?late ''tcp'' (JoinHostPort ''example.com'' ''443'') = Inr ?conn"
    by (simp add: example_world_def JoinHostPort_def)
  have d': "Dial ?bad ''tcp'' (JoinHostPort ''example.com'' ''443'') = Inr ?conn"
    by (simp add: example_world_def JoinHostPort_def)
  have p: "deref [?cfg] (tlsConfig (example_client t)) = Some ?cfg" for t
    by (simp add: deref_def example_client_def)
  have s: "Handshake ?late ?conn ?cfg = Some ErrCertsOnly"
    by simp
  have t: "timer_first ?late (Dialer.Timeout (dialer (example_client 7)))"
    by (simp add: timer_first_def example_world_def example_client_def)
  have r: "result (Connect ?late [?cfg] (example_client 7) ''example.com'' ''443'')
     = Returned None (Some (Wrap (TimeoutErr timeoutError) ''could not do tls handshake''))"
    using d p t by (rule Connect_timer_first)
  have cw: "chan_writes (Connect ?late [?cfg] (example_client 7) ''example.com'' ''443'')
     = [(7, Some (TimeoutErr timeoutError)), (8, Some ErrCertsOnly)]"
    using Connect_writes_dialed [OF d p]
    by (simp add: example_client_def example_world_def arrivals_def timer_write_def
        handshake_write_def)
  have f: "handshake_first ?bad (Dialer.Timeout (dialer (example_client 0)))"
    by (simp add: handshake_first_def example_world_def example_client_def)
  have z: "result (Connect ?bad [?cfg] (example_client 0) ''example.com'' ''443'')
     = Returned
         (Some \<lparr> Host = ''example.com'', Port = ''443'', Response.Version = ''tls12'',
                 TLSConnection = ''ztls'',
                 Leaf = \<lparr> CertificateResponse.DNSNames = [], Emails = [],
                          IssuerCommonName = [], IssuerOrganization = [],
                          SubjectCommonName = [], SubjectOrganization = [] \<rparr>,
                 Response.Chain = [] \<rparr>)
         None"
    using Connect_handshake_first [OF d' p f]
    by (simp add: assemble_eq example_world_def example_log_def certificateRecord_def
        convertCertificateToResponse_def parseSimpleTLSCertificate_def example_decoder_def
        versionToTLSVersionString_eq VersionSSL30_def VersionTLS10_def VersionTLS11_def
        VersionTLS12_def)
  from d s cw r z show ?thesis by blast
qed

text \<open>
  C3, amended. When the dial has succeeded and the handshake's result is the one
  \<open>Connect\<close> goes on with (there is no timeout, or its write reaches the channel before
  the timer's) and that result is the sentinel \<open>tls.ErrCertsOnly\<close>, \<open>Connect\<close> returns a
  response and a nil error, not the wrapped handshake error. The leaf of the response is
  the record extracted from the log's server certificate: the fields of the decoded
  certificate when the decoder reads it, the zero record when it does not.
\<close>

theorem Connect_certs_only:
  assumes "Dial w ''tcp'' (JoinHostPort hostname port) = Inr conn"
    and "deref h (tlsConfig c) = Some base"
    and "handshake_first w (Dialer.Timeout (dialer c))"
    and "Handshake w conn base = Some ErrCertsOnly"
  shows "(\<exists>response.
           result (Connect w h c hostname port) = Returned (Some response) None
           \<and> Leaf response
               = convertCertificateToResponse
                   (parseSimpleTLSCertificate (ParseCertificate w)
                      (Certificate (ServerCertificates (GetHandshakeLog w conn base))))
           \<and> (\<forall>parsed.
                 ParseCertificate w
                     (Raw (Certificate (ServerCertificates (GetHandshakeLog w conn base))))
                   = Inr parsed \<longrightarrow>
                 Leaf response
                   = \<lparr> CertificateResponse.DNSNames = Certificate.DNSNames parsed,
                       Emails = EmailAddresses parsed,
                       IssuerCommonName = CommonName (Issuer parsed),
                       IssuerOrganization = Organization (Issuer parsed),
                       SubjectCommonName = CommonName (Subject parsed),
                       SubjectOrganization = Organization (Subject parsed) \<rparr>)
           \<and> (\<forall>err.
                 ParseCertificate w
                     (Raw (Certificate (ServerCertificates (GetHandshakeLog w conn base))))
                   = Inl err \<longrightarrow>
                 Leaf response
                   = \<lparr> CertificateResponse.DNSNames = [], Emails = [], IssuerCommonName = [],
                       IssuerOrganization = [], SubjectCommonName = [],
                       SubjectOrganization = [] \<rparr>))
         \<and> result (Connect w h c hostname port)
           \<noteq> Returned None (Some (Wrap ErrCertsOnly ''could not do tls handshake''))"
  using Connect_handshake_first [OF assms(1-3)] assms(4)
  by (auto simp: assemble_eq certificateRecord_def convertCertificateToResponse_def
      parseSimpleTLSCertificate_def)

theorem Connect_certs_only_witness:
  "\<exists>response.
     result (Connect (example_world\<lparr> Handshake := \<lambda>conn cfg. Some ErrCertsOnly \<rparr>)
               [example_config\<lparr> Config.CertsOnly := True \<rparr>] (example_client 20)
               ''example.com'' ''443'')
       = Returned (Some response) None
     \<and> Leaf response
       = \<lparr> CertificateResponse.DNSNames = [''example.com''],
           Emails = [''admin@example.com''],
           IssuerCommonName = ''Example CA'',
           IssuerOrganization = [''Example Trust''],
           SubjectCommonName = ''example.com'',
           SubjectOrganization = [''Example Inc''] \<rparr>"
proof -
  let ?w = "example_world\<lparr> Handshake := \<lambda>conn cfg. Some ErrCertsOnly \<rparr>"
  let ?cfg = "example_config\<lparr> Config.CertsOnly := True \<rparr>"
  let ?conn = "Conn ''tcp'' ''example.com:443''"
  have d: "Dial ?w ''tcp'' (JoinHostPort ''example.com'' ''443'') = Inr ?conn"
    by (simp add: example_world_def JoinHostPort_def)
  have p: "deref [?cfg] (tlsConfig (example_client 20)) = Some ?cfg"
    by (simp add: deref_def example_client_def)
  have f: "handshake_first ?w (Dialer.Timeout (dialer (example_client 20)))"
    by (simp add: handshake_first_def example_world_def example_client_def)
  have s: "Handshake ?w ?conn ?cfg = Some ErrCertsOnly"
    by simp
  from Connect_certs_only [OF d p f s] obtain response where
    r: "result (Connect ?w [?cfg] (example_client 20) ''example.com'' ''443'')
          = Returned (Some response) None"
    and l: "Leaf response
               = convertCertificateToResponse
                   (parseSimpleTLSCertificate (ParseCertificate ?w)
                      (Certificate (ServerCertificates (GetHandshakeLog ?w ?conn ?cfg))))"
    by blast
  from l have "Leaf response
       = \<lparr> CertificateResponse.DNSNames = [''example.com''],
           Emails = [''admin@example.com''],
           IssuerCommonName = ''Example CA'',
           IssuerOrganization = [''Example Trust''],
           SubjectCommonName = ''example.com'',
           SubjectOrganization = [''Example Inc''] \<rparr>"
    by (simp add: example_world_def example_log_def convertCertificateToResponse_def
        parseSimpleTLSCertificate_def example_decoder_def example_certificate_def)
  with r show ?thesis by blast
qed

subsection \<open>Version tokens in New\<close>

text \<open>
  C4. \<open>New\<close> answers an unrecognised version token with a nil client and the error whose
  message is \<open>invalid min version specified: \<close> (or \<open>max\<close>) followed by the token, the
  minimum being looked at first; and it returns a client and no error whenever each of
  the two tokens is empty or one of \<open>ssl30\<close>, \<open>tls10\<close>, \<open>tls11\<close>, \<open>tls12\<close>.
\<close>

theorem New_version_tokens:
  "(Options.MinVersion options \<noteq> [] \<and> Options.MinVersion options \<notin> version_tokens \<longrightarrow>
      snd (New h0 options) =
        (None, Some (Errorf (''invalid min version specified: '' @ Options.MinVersion options))))
   \<and> ((Options.MinVersion options = [] \<or> Options.MinVersion options \<in> version_tokens)
        \<and> Options.MaxVersion options \<noteq> [] \<and> Options.MaxVersion options \<notin> version_tokens \<longrightarrow>
      snd (New h0 options) =
        (None, Some (Errorf (''invalid max version specified: '' @ Options.MaxVersion options))))
   \<and> ((Options.MinVersion options = [] \<or> Options.MinVersion options \<in> version_tokens)
        \<and> (Options.MaxVersion options = [] \<or> Options.MaxVersion options \<in> version_tokens) \<longrightarrow>
      (\<exists>c. snd (New h0 options) = (Some c, None)))"
proof -
  obtain h c where n: "New h0 options = New_MinVersion h c options"
    using New_unfold by blast
  show ?thesis
  proof (intro conjI impI)
    assume "Options.MinVersion options \<noteq> [] \<and> Options.MinVersion options \<notin> version_tokens"
    then show "snd (New h0 options) =
        (None, Some (Errorf (''invalid min version specified: '' @ Options.MinVersion options)))"
      using New_MinVersion_invalid [of options h c] n by simp
  next
    assume a: "(Options.MinVersion options = [] \<or> Options.MinVersion options \<in> version_tokens)
        \<and> Options.MaxVersion options \<noteq> [] \<and> Options.MaxVersion options \<notin> version_tokens"
    then obtain h' where "New_MinVersion h c options = New_MaxVersion h' c options"
      using New_MinVersion_valid by blast
    with a n show "snd (New h0 options) =
        (None, Some (Errorf (''invalid max version specified: '' @ Options.MaxVersion options)))"
      using New_MaxVersion_invalid [of options h' c] by simp
  next
    assume a: "(Options.MinVersion options = [] \<or> Options.MinVersion options \<in> version_tokens)
        \<and> (Options.MaxVersion options = [] \<or> Options.MaxVersion options \<in> version_tokens)"
    then obtain h' where "New_MinVersion h c options = New_MaxVersion h' c options"
      using New_MinVersion_valid by blast
    with a n have "snd (New h0 options) = (Some c, None)"
      using New_MaxVersion_valid [of options h' c] by simp
    then show "\<exists>c. snd (New h0 options) = (Some c, None)" by blast
  qed
qed

theorem New_version_tokens_witness:
  "snd (New [] \<lparr> Options.Timeout = 5, Options.ServerName = [], Options.MinVersion = ''bogus'',
                  Options.MaxVersion = [], Options.CertsOnly = False,
                  VerifyServerCertificate = False \<rparr>)
     = (None, Some (Errorf ''invalid min version specified: bogus''))
   \<and> snd (New [] \<lparr> Options.Timeout = 5, Options.ServerName = [], Options.MinVersion = ''tls10'',
                    Options.MaxVersion = ''tls13'', Options.CertsOnly = False,
                    VerifyServerCertificate = False \<rparr>)
     = (None, Some (Errorf ''invalid max version specified: tls13''))
   \<and> (\<exists>c. snd (New [] \<lparr> Options.Timeout = 5, Options.ServerName = [], Options.MinVersion = ''tls10'',
                    Options.MaxVersion = ''tls12'', Options.CertsOnly = False,
                    VerifyServerCertificate = False \<rparr>)
     = (Some c, None))"
  using
    New_version_tokens [of "\<lparr> Options.Timeout = 5, Options.ServerName = [], Options.MinVersion = ''bogus'',
                  Options.MaxVersion = [], Options.CertsOnly = False,
                  VerifyServerCertificate = False \<rparr>" "[]"]
    New_version_tokens [of "\<lparr> Options.Timeout = 5, Options.ServerName = [], Options.MinVersion = ''tls10'',
                    Options.MaxVersion = ''tls13'', Options.CertsOnly = False,
                    VerifyServerCertificate = False \<rparr>" "[]"]
    New_version_tokens [of "\<lparr> Options.Timeout = 5, Options.ServerName = [], Options.MinVersion = ''tls10'',
                    Options.MaxVersion = ''tls12'', Options.CertsOnly = False,
                    VerifyServerCertificate = False \<rparr>" "[]"]
  by (simp add: version_tokens_def)

subsection \<open>The version of the response\<close>

text \<open>
  C5. In a successful \<open>Connect\<close> the version of the response is the Version Table's token
  for the version number in the log's ServerHello: \<open>ssl30\<close>, \<open>tls10\<close>, \<open>tls11\<close>, \<open>tls12\<close>
  for the four known numbers and the empty string for any other number. Whether the call
  succeeds does not depend on that number: when the handshake's result is the one
  \<open>Connect\<close> goes on with and it is nil or the certs-only sentinel, a response is returned.
\<close>

theorem Connect_version_token:
  assumes "Dial w ''tcp'' (JoinHostPort hostname port) = Inr conn"
    and "deref h (tlsConfig c) = Some base"
  shows "(\<forall>response. result (Connect w h c hostname port) = Returned (Some response) None \<longrightarrow>
            Response.Version response
              = (case versionToTLSVersionString
                        (ServerHello.Version (ServerHello (GetHandshakeLog w conn base))) of
                   None \<Rightarrow> [] | Some token \<Rightarrow> token)
          \<and> Response.Version response
              = (let v = ServerHello.Version (ServerHello (GetHandshakeLog w conn base))
                 in if v = VersionSSL30 then ''ssl30''
                    else if v = VersionTLS10 then ''tls10''
                    else if v = VersionTLS11 then ''tls11''
                    else if v = VersionTLS12 then ''tls12''
                    else []))
         \<and> (handshake_first w (Dialer.Timeout (dialer c))
              \<and> (Handshake w conn base = None \<or> Handshake w conn base = Some ErrCertsOnly) \<longrightarrow>
            (\<exists>response. result (Connect w h c hostname port) = Returned (Some response) None))"
proof (intro conjI allI impI)
  fix response
  assume "result (Connect w h c hostname port) = Returned (Some response) None"
  with assms have r: "response = assemble w (GetHandshakeLog w conn base) hostname port"
    by (rule Connect_success)
  then show "Response.Version response
              = (case versionToTLSVersionString
                        (ServerHello.Version (ServerHello (GetHandshakeLog w conn base))) of
                   None \<Rightarrow> [] | Some token \<Rightarrow> token)"
    by (simp add: assemble_eq)
  from r show "Response.Version response
              = (let v = ServerHello.Version (ServerHello (GetHandshakeLog w conn base))
                 in if v = VersionSSL30 then ''ssl30''
                    else if v = VersionTLS10 then ''tls10''
                    else if v = VersionTLS11 then ''tls11''
                    else if v = VersionTLS12 then ''tls12''
                    else [])"
    by (simp add: assemble_eq versionToTLSVersionString_eq Let_def)
next
  assume a: "handshake_first w (Dialer.Timeout (dialer c))
              \<and> (Handshake w conn base = None \<or> Handshake w conn base = Some ErrCertsOnly)"
  then have "handshake_first w (Dialer.Timeout (dialer c))" by simp
  from Connect_handshake_first [OF assms this] a
  show "\<exists>response. result (Connect w h c hostname port) = Returned (Some response) None"
    by auto
qed

theorem Connect_version_token_witness:
  "(\<exists>response.
      result (Connect example_world [example_config] (example_client 0) ''example.com'' ''443'')
        = Returned (Some response) None
      \<and> Response.Version response = ''tls12'')
   \<and> (\<exists>response.
      result (Connect (example_world\<lparr> GetHandshakeLog := \<lambda>conn cfg.
                          example_log\<lparr> ServerHello := \<lparr> ServerHello.Version = 0x0304 \<rparr> \<rparr> \<rparr>)
                [example_config] (example_client 0) ''example.com'' ''443'')
        = Returned (Some response) None
      \<and> Response.Version response = [])"
proof -
  let ?w = "example_world\<lparr> GetHandshakeLog := \<lambda>conn cfg.
                          example_log\<lparr> ServerHello := \<lparr> ServerHello.Version = 0x0304 \<rparr> \<rparr> \<rparr>"
  let ?conn = "Conn ''tcp'' ''example.com:443''"
  have d: "Dial ?w ''tcp'' (JoinHostPort ''example.com'' ''443'') = Inr ?conn"
    by (simp add: example_world_def JoinHostPort_def)
  have f: "handshake_first ?w (Dialer.Timeout (dialer (example_client 0)))
           \<and> (Handshake ?w ?conn example_config = None
                \<or> Handshake ?w ?conn example_config = Some ErrCertsOnly)"
    by (simp add: handshake_first_def example_world_def example_client_def)
  note known = Connect_version_token [OF example_dial example_deref, of 0]
  note other = Connect_version_token [OF d example_deref, of 0]
  from known example_success
  have "Response.Version (assemble example_world example_log ''example.com'' ''443'')
      = (let v = ServerHello.Version (ServerHello (GetHandshakeLog example_world ?conn example_config))
                 in if v = VersionSSL30 then ''ssl30''
                    else if v = VersionTLS10 then ''tls10''
                    else if v = VersionTLS11 then ''tls11''
                    else if v = VersionTLS12 then ''tls12''
                    else [])"
    by blast
  then have 1: "Response.Version (assemble example_world example_log ''example.com'' ''443'') = ''tls12''"
    by (simp add: example_world_def example_log_def VersionSSL30_def VersionTLS10_def
        VersionTLS11_def VersionTLS12_def)
  from other f obtain response where
    s: "result (Connect ?w [example_config] (example_client 0) ''example.com'' ''443'')
          = Returned (Some response) None"
    by blast
  with other have "Response.Version response
      = (let v = ServerHello.Version (ServerHello (GetHandshakeLog ?w ?conn example_config))
                 in if v = VersionSSL30 then ''ssl30''
                    else if v = VersionTLS10 then ''tls10''
                    else if v = VersionTLS11 then ''tls11''
                    else if v = VersionTLS12 then ''tls12''
                    else [])"
    by blast
  then have 2: "Response.Version response = []"
    by (simp add: example_world_def example_log_def VersionSSL30_def VersionTLS10_def
        VersionTLS11_def VersionTLS12_def)
  from 1 2 s example_success show ?thesis by blast
qed

subsection \<open>Failed dial\<close>

text \<open>
  C6. When the dial fails, \<open>Connect\<close> returns no response and the dial's error wrapped
  with \<open>could not connect to address\<close>; the engine is never created, no handshake is
  started and no log is read: the dial is the last call made.
\<close>

theorem Connect_dial_failure:
  assumes "Dial w ''tcp'' (JoinHostPort hostname port) = Inl err"
  shows "result (Connect w h c hostname port)
           = Returned None (Some (Wrap err ''could not connect to address''))
         \<and> Cause (Wrap err ''could not connect to address'') = Cause err
         \<and> last (trace (Connect w h c hostname port)) = CallDial ''tcp'' (JoinHostPort hostname port)
         \<and> set (trace (Connect w h c hostname port))
             \<subseteq> {MakeChan 2, AfterFunc (Dialer.Timeout (dialer c)),
                 CallDial ''tcp'' (JoinHostPort hostname port)}
         \<and> heap_after (Connect w h c hostname port) = h"
  using assms by (auto simp: Connect_dial_failed)

theorem Connect_dial_failure_witness:
  "result (Connect (example_world\<lparr> Dial := \<lambda>network address. Inl (LibraryError ''connection refused'') \<rparr>)
             [example_config] (example_client 7) ''example.com'' ''443'')
     = Returned None (Some (Wrap (LibraryError ''connection refused'') ''could not connect to address''))
   \<and> trace (Connect (example_world\<lparr> Dial := \<lambda>network address. Inl (LibraryError ''connection refused'') \<rparr>)
             [example_config] (example_client 7) ''example.com'' ''443'')
     = [MakeChan 2, AfterFunc 7, CallDial ''tcp'' ''example.com:443'']"
proof -
  let ?w = "example_world\<lparr> Dial := \<lambda>network address. Inl (LibraryError ''connection refused'') \<rparr>"
  have a: "Dial ?w ''tcp'' (JoinHostPort ''example.com'' ''443'') = Inl (LibraryError ''connection refused'')"
    by simp
  have t: "trace (Connect ?w [example_config] (example_client 7) ''example.com'' ''443'')
     = [MakeChan 2, AfterFunc 7, CallDial ''tcp'' ''example.com:443'']"
    by (simp add: Connect_def Let_def example_client_def JoinHostPort_def)
  from Connect_dial_failure [OF a, of "[example_config]" "example_client 7"] t
  show ?thesis by simp
qed

subsection \<open>Order of the chain\<close>

text \<open>
  C7. In a successful \<open>Connect\<close> the chain of the response has as many records as the
  log's chain has certificates, and its i-th record is the record extracted from the
  i-th certificate: the chain is the log's chain mapped through the extraction, in the
  same order.
\<close>

theorem Connect_chain_order:
  assumes "Dial w ''tcp'' (JoinHostPort hostname port) = Inr conn"
    and "deref h (tlsConfig c) = Some base"
    and "result (Connect w h c hostname port) = Returned (Some response) None"
  shows "Response.Chain response
           = map (certificateRecord w)
               (Certificates.Chain (ServerCertificates (GetHandshakeLog w conn base)))
         \<and> length (Response.Chain response)
           = length (Certificates.Chain (ServerCertificates (GetHandshakeLog w conn base)))
         \<and> (\<forall>i < length (Certificates.Chain (ServerCertificates (GetHandshakeLog w conn base))).
               Response.Chain response ! i
                 = convertCertificateToResponse
                     (parseSimpleTLSCertificate (ParseCertificate w)
                        (Certificates.Chain (ServerCertificates (GetHandshakeLog w conn base)) ! i)))"
proof -
  have "response = assemble w (GetHandshakeLog w conn base) hostname port"
    using assms by (rule Connect_success)
  then have m: "Response.Chain response
           = map (certificateRecord w)
               (Certificates.Chain (ServerCertificates (GetHandshakeLog w conn base)))"
    by (simp add: assemble_eq)
  then show ?thesis by (simp add: certificateRecord_def)
qed

theorem Connect_chain_order_witness:
  "\<exists>response.
     result (Connect example_world [example_config] (example_client 0) ''example.com'' ''443'')
       = Returned (Some response) None
     \<and> Response.Chain response
       = [\<lparr> CertificateResponse.DNSNames = [''example.com''],
            Emails = [''admin@example.com''],
            IssuerCommonName = ''Example CA'',
            IssuerOrganization = [''Example Trust''],
            SubjectCommonName = ''example.com'',
            SubjectOrganization = [''Example Inc''] \<rparr>,
          \<lparr> CertificateResponse.DNSNames = [], Emails = [], IssuerCommonName = [],
            IssuerOrganization = [], SubjectCommonName = [], SubjectOrganization = [] \<rparr>]"
proof -
  let ?resp = "assemble example_world example_log ''example.com'' ''443''"
  have "Response.Chain ?resp
     = map (certificateRecord example_world)
         (Certificates.Chain (ServerCertificates
            (GetHandshakeLog example_world (Conn ''tcp'' ''example.com:443'') example_config)))"
    using Connect_chain_order [OF example_dial example_deref example_success] by blast
  then have "Response.Chain ?resp
       = [\<lparr> CertificateResponse.DNSNames = [''example.com''],
            Emails = [''admin@example.com''],
            IssuerCommonName = ''Example CA'',
            IssuerOrganization = [''Example Trust''],
            SubjectCommonName = ''example.com'',
            SubjectOrganization = [''Example Inc''] \<rparr>,
          \<lparr> CertificateResponse.DNSNames = [], Emails = [], IssuerCommonName = [],
            IssuerOrganization = [], SubjectCommonName = [], SubjectOrganization = [] \<rparr>]"
    by (simp add: example_world_def example_log_def certificateRecord_def
        convertCertificateToResponse_def parseSimpleTLSCertificate_def example_decoder_def
        example_certificate_def)
  with example_success show ?thesis by blast
qed

subsection \<open>Extraction of a certificate\<close>

text \<open>
  C8. The extraction pipeline, \<open>convertCertificateToResponse\<close> after
  \<open>parseSimpleTLSCertificate\<close>, returns a record and nothing else. When the decoder fails
  on the raw bytes the record is the zero value, every field empty; when the decoder
  returns a certificate, the six fields are that certificate's DNS names, email
  addresses, issuer common name and organization, subject common name and organization.
\<close>

theorem extraction_pipeline:
  "(\<forall>err. x509_ParseCertificate (Raw cert) = Inl err \<longrightarrow>
      convertCertificateToResponse (parseSimpleTLSCertificate x509_ParseCertificate cert)
        = \<lparr> CertificateResponse.DNSNames = [], Emails = [], IssuerCommonName = [],
            IssuerOrganization = [], SubjectCommonName = [], SubjectOrganization = [] \<rparr>)
   \<and> (\<forall>parsed. x509_ParseCertificate (Raw cert) = Inr parsed \<longrightarrow>
      convertCertificateToResponse (parseSimpleTLSCertificate x509_ParseCertificate cert)
        = \<lparr> CertificateResponse.DNSNames = Certificate.DNSNames parsed,
            Emails = EmailAddresses parsed,
            IssuerCommonName = CommonName (Issuer parsed),
            IssuerOrganization = Organization (Issuer parsed),
            SubjectCommonName = CommonName (Subject parsed),
            SubjectOrganization = Organization (Subject parsed) \<rparr>)"
  by (simp add: convertCertificateToResponse_def parseSimpleTLSCertificate_def)

theorem extraction_pipeline_witness:
  "convertCertificateToResponse (parseSimpleTLSCertificate example_decoder \<lparr> Raw = [255] \<rparr>)
     = \<lparr> CertificateResponse.DNSNames = [], Emails = [], IssuerCommonName = [],
         IssuerOrganization = [], SubjectCommonName = [], SubjectOrganization = [] \<rparr>
   \<and> convertCertificateToResponse (parseSimpleTLSCertificate example_decoder \<lparr> Raw = [48, 130] \<rparr>)
     = \<lparr> CertificateResponse.DNSNames = [''example.com''],
         Emails = [''admin@example.com''],
         IssuerCommonName = ''Example CA'',
         IssuerOrganization = [''Example Trust''],
         SubjectCommonName = ''example.com'',
         SubjectOrganization = [''Example Inc''] \<rparr>"
proof -
  have a: "example_decoder (Raw \<lparr> Raw = [255] \<rparr>) = Inl (LibraryError ''asn1: syntax error'')"
    by (simp add: example_decoder_def)
  have b: "example_decoder (Raw \<lparr> Raw = [48, 130] \<rparr>) = Inr example_certificate"
    by (simp add: example_decoder_def)
  from extraction_pipeline [of example_decoder "\<lparr> Raw = [255] \<rparr>"] a
  have 1: "convertCertificateToResponse (parseSimpleTLSCertificate example_decoder \<lparr> Raw = [255] \<rparr>)
     = \<lparr> CertificateResponse.DNSNames = [], Emails = [], IssuerCommonName = [],
         IssuerOrganization = [], SubjectCommonName = [], SubjectOrganization = [] \<rparr>"
    by blast
  from extraction_pipeline [of example_decoder "\<lparr> Raw = [48, 130] \<rparr>"] b
  have 2: "convertCertificateToResponse (parseSimpleTLSCertificate example_decoder \<lparr> Raw = [48, 130] \<rparr>)
     = \<lparr> CertificateResponse.DNSNames = Certificate.DNSNames example_certificate,
            Emails = EmailAddresses example_certificate,
            IssuerCommonName = CommonName (Issuer example_certificate),
            IssuerOrganization = Organization (Issuer example_certificate),
            SubjectCommonName = CommonName (Subject example_certificate),
            SubjectOrganization = Organization (Subject example_certificate) \<rparr>"
    by blast
  from 1 2 show ?thesis by (simp add: example_certificate_def)
qed

subsection \<open>The base configuration is not changed\<close>

text \<open>
  C9. The configuration behind the client's pointer is the same after \<open>Connect\<close> as
  before it, whatever the call does, and so is every other cell the store had; when the
  dial succeeds and the base configuration has no server name, the store after the call
  is the store before it followed by one new cell, the copy that carries the derived name.
\<close>

theorem Connect_keeps_base_config:
  "deref (heap_after (Connect w h c hostname port)) (tlsConfig c) = deref h (tlsConfig c)
   \<and> take (length h) (heap_after (Connect w h c hostname port)) = h
   \<and> (\<forall>conn base.
         Dial w ''tcp'' (JoinHostPort hostname port) = Inr conn
         \<and> deref h (tlsConfig c) = Some base \<and> Config.ServerName base = [] \<longrightarrow>
         heap_after (Connect w h c hostname port)
           = h @ [base\<lparr> Config.ServerName := hostnameValue (JoinHostPort hostname port) \<rparr>])"
proof -
  let ?r = "Connect w h c hostname port"
  have heap: "heap_after ?r = h
      \<or> (\<exists>conn base. Dial w ''tcp'' (JoinHostPort hostname port) = Inr conn
            \<and> deref h (tlsConfig c) = Some base
            \<and> heap_after ?r = fst (localConfig h c base (JoinHostPort hostname port)))"
  proof (cases "Dial w ''tcp'' (JoinHostPort hostname port)")
    case (Inl err)
    then show ?thesis by (simp add: Connect_dial_failed)
  next
    case (Inr conn)
    show ?thesis
    proof (cases "deref h (tlsConfig c)")
      case None
      with Inr show ?thesis by (simp add: Connect_heap_panicked)
    next
      case (Some base)
      with Inr show ?thesis by (simp add: Connect_heap_dialed)
    qed
  qed
  have ext: "heap_after ?r = h \<or> (\<exists>x. heap_after ?r = h @ [x])"
    using heap by (auto simp: localConfig_heap)
  have 1: "take (length h) (heap_after ?r) = h"
    using ext by auto
  have 2: "deref (heap_after ?r) (tlsConfig c) = deref h (tlsConfig c)"
    using heap by (auto simp: localConfig_keeps)
  have 3: "heap_after ?r = h @ [base\<lparr> Config.ServerName := hostnameValue (JoinHostPort hostname port) \<rparr>]"
    if "Dial w ''tcp'' (JoinHostPort hostname port) = Inr conn"
      and "deref h (tlsConfig c) = Some base" and "Config.ServerName base = []"
    for conn base
    using that by (simp add: Connect_heap_dialed localConfig_heap)
  from 1 2 3 show ?thesis by blast
qed

theorem Connect_keeps_base_config_witness:
  "deref (heap_after (Connect example_world [example_config] (example_client 0) ''example.com'' ''443'')) 0
     = Some example_config
   \<and> heap_after (Connect example_world [example_config] (example_client 0) ''example.com'' ''443'')
     = [example_config, example_config\<lparr> Config.ServerName := ''example.com'' \<rparr>]"
proof -
  have a: "Dial example_world ''tcp'' (JoinHostPort ''example.com'' ''443'')
             = Inr (Conn ''tcp'' ''example.com:443'')"
    by (simp add: example_world_def JoinHostPort_def)
  have b: "deref [example_config] (tlsConfig (example_client 0)) = Some example_config"
    by (simp add: deref_def example_client_def)
  have c: "Config.ServerName example_config = []"
    by (simp add: example_config_def)
  have d: "hostnameValue (JoinHostPort ''example.com'' ''443'') = ''example.com''"
    by (simp add: hostnameValue_def JoinHostPort_def Let_def)
  let ?r = "Connect example_world [example_config] (example_client 0) ''example.com'' ''443''"
  note inst = Connect_keeps_base_config
    [of example_world "[example_config]" "example_client 0" "''example.com''" "''443''"]
  from inst a b c have "heap_after ?r
      = [example_config] @ [example_config\<lparr> Config.ServerName := hostnameValue (JoinHostPort ''example.com'' ''443'') \<rparr>]"
    by blast
  moreover from inst b have "deref (heap_after ?r) (tlsConfig (example_client 0)) = Some example_config"
    by simp
  ultimately show ?thesis using d by (simp add: example_client_def)
qed

subsection \<open>The timer and the dial\<close>

text \<open>
  C10. With a timeout that is not zero, \<open>Connect\<close> makes the channel and schedules the
  timer before it dials: these are its first three calls, in this order. The timer runs
  from the entry into \<open>Connect\<close>, so one window covers the dial and the handshake: when
  the dial succeeds and the handshake takes \<open>d\<close>, the timeout error is returned if
  \<open>timeout < dial_duration + d\<close>, and a handshake that ends without error gives a response
  if \<open>dial_duration + d < timeout\<close>. The timer's write is among the writes into the channel
  on every path, and it is the only write when the dial fails. With a timeout of zero
  there is no \<open>make\<close>, no \<open>AfterFunc\<close>, no goroutine and no receive, nothing is ever written
  into a channel, and after a successful dial the handshake is called in place.
\<close>

theorem Connect_timer_schedule:
  "(Dialer.Timeout (dialer c) \<noteq> 0 \<longrightarrow>
      take 3 (trace (Connect w h c hostname port))
        = [MakeChan 2, AfterFunc (Dialer.Timeout (dialer c)),
           CallDial ''tcp'' (JoinHostPort hostname port)]
      \<and> (nat (sint (Dialer.Timeout (dialer c))), Some (TimeoutErr timeoutError))
           \<in> set (chan_writes (Connect w h c hostname port))
      \<and> (\<forall>err. Dial w ''tcp'' (JoinHostPort hostname port) = Inl err \<longrightarrow>
            chan_writes (Connect w h c hostname port)
              = [(nat (sint (Dialer.Timeout (dialer c))), Some (TimeoutErr timeoutError))])
      \<and> (\<forall>conn base d.
            Dial w ''tcp'' (JoinHostPort hostname port) = Inr conn
            \<and> deref h (tlsConfig c) = Some base \<and> handshake_duration w = Some d \<longrightarrow>
            (nat (sint (Dialer.Timeout (dialer c))) < dial_duration w + d \<longrightarrow>
               result (Connect w h c hostname port)
                 = Returned None
                     (Some (Wrap (TimeoutErr timeoutError) ''could not do tls handshake'')))
            \<and> (dial_duration w + d < nat (sint (Dialer.Timeout (dialer c)))
                 \<and> Handshake w conn base = None \<longrightarrow>
               (\<exists>response. result (Connect w h c hostname port)
                             = Returned (Some response) None))))
   \<and> (Dialer.Timeout (dialer c) = 0 \<longrightarrow>
      (\<forall>n. MakeChan n \<notin> set (trace (Connect w h c hostname port)))
      \<and> (\<forall>d. AfterFunc d \<notin> set (trace (Connect w h c hostname port)))
      \<and> GoHandshake \<notin> set (trace (Connect w h c hostname port))
      \<and> ChanRecv \<notin> set (trace (Connect w h c hostname port))
      \<and> chan_writes (Connect w h c hostname port) = []
      \<and> (\<forall>conn base.
            Dial w ''tcp'' (JoinHostPort hostname port) = Inr conn
            \<and> deref h (tlsConfig c) = Some base \<longrightarrow>
            CallHandshake \<in> set (trace (Connect w h c hostname port))))"
proof (intro conjI impI allI)
  assume t: "Dialer.Timeout (dialer c) \<noteq> 0"
  show "take 3 (trace (Connect w h c hostname port))
        = [MakeChan 2, AfterFunc (Dialer.Timeout (dialer c)),
           CallDial ''tcp'' (JoinHostPort hostname port)]"
    using t by (rule Connect_trace_start)
  show "(nat (sint (Dialer.Timeout (dialer c))), Some (TimeoutErr timeoutError))
           \<in> set (chan_writes (Connect w h c hostname port))"
    using Connect_timer_fires [OF t, of w h hostname port] by (simp add: timer_write_def)
  {
    fix err
    assume "Dial w ''tcp'' (JoinHostPort hostname port) = Inl err"
    with t show "chan_writes (Connect w h c hostname port)
              = [(nat (sint (Dialer.Timeout (dialer c))), Some (TimeoutErr timeoutError))]"
      by (simp add: Connect_dial_failed timer_write_def)
  }
  {
    fix conn base d
    assume a: "Dial w ''tcp'' (JoinHostPort hostname port) = Inr conn
            \<and> deref h (tlsConfig c) = Some base \<and> handshake_duration w = Some d"
    {
      assume "nat (sint (Dialer.Timeout (dialer c))) < dial_duration w + d"
      with a t have "timer_first w (Dialer.Timeout (dialer c))"
        by (simp add: timer_first_def)
      with a show "result (Connect w h c hostname port)
                 = Returned None
                     (Some (Wrap (TimeoutErr timeoutError) ''could not do tls handshake''))"
        by (simp add: Connect_timer_first)
    }
    {
      assume b: "dial_duration w + d < nat (sint (Dialer.Timeout (dialer c)))
                 \<and> Handshake w conn base = None"
      with a have "handshake_first w (Dialer.Timeout (dialer c))"
        by (simp add: handshake_first_def)
      with a b show "\<exists>response. result (Connect w h c hostname port)
                             = Returned (Some response) None"
        by (simp add: Connect_handshake_first)
    }
  }
next
  assume z: "Dialer.Timeout (dialer c) = 0"
  note tr = Connect_no_timeout(1) [OF z, of w h hostname port]
  show "\<And>n. MakeChan n \<notin> set (trace (Connect w h c hostname port))"
    using tr by auto
  show "\<And>d. AfterFunc d \<notin> set (trace (Connect w h c hostname port))"
    using tr by auto
  show "GoHandshake \<notin> set (trace (Connect w h c hostname port))"
    using tr by auto
  show "ChanRecv \<notin> set (trace (Connect w h c hostname port))"
    using tr by auto
  show "chan_writes (Connect w h c hostname port) = []"
    using z by (rule Connect_no_timeout(2))
  {
    fix conn base
    assume a: "Dial w ''tcp'' (JoinHostPort hostname port) = Inr conn
            \<and> deref h (tlsConfig c) = Some base"
    then have "Dial w ''tcp'' (JoinHostPort hostname port) = Inr conn"
      and "deref h (tlsConfig c) = Some base" by simp_all
    from Connect_trace_dialed [OF this] z
    show "CallHandshake \<in> set (trace (Connect w h c hostname port))"
      by auto
  }
qed

theorem Connect_timer_schedule_witness:
  "take 3 (trace (Connect example_world [example_config] (example_client 7) ''example.com'' ''443''))
     = [MakeChan 2, AfterFunc 7, CallDial ''tcp'' ''example.com:443'']
   \<and> result (Connect example_world [example_config] (example_client 7) ''example.com'' ''443'')
     = Returned None (Some (Wrap (TimeoutErr timeoutError) ''could not do tls handshake''))
   \<and> (\<exists>response.
        result (Connect example_world [example_config] (example_client 20) ''example.com'' ''443'')
          = Returned (Some response) None)
   \<and> chan_writes (Connect (example_world\<lparr> Dial := \<lambda>network address. Inl (LibraryError ''connection refused'') \<rparr>)
                    [example_config] (example_client 7) ''example.com'' ''443'')
     = [(7, Some (TimeoutErr timeoutError))]
   \<and> chan_writes (Connect example_world [example_config] (example_client 0) ''example.com'' ''443'') = []
   \<and> CallHandshake
       \<in> set (trace (Connect example_world [example_config] (example_client 0) ''example.com'' ''443''))"
proof -
  let ?refused = "example_world\<lparr> Dial := \<lambda>network address. Inl (LibraryError ''connection refused'') \<rparr>"
  note seven = Connect_timer_schedule
    [of "example_client 7" example_world "[example_config]" "''example.com''" "''443''"]
  note twenty = Connect_timer_schedule
    [of "example_client 20" example_world "[example_config]" "''example.com''" "''443''"]
  note zero = Connect_timer_schedule
    [of "example_client 0" example_world "[example_config]" "''example.com''" "''443''"]
  note failed = Connect_timer_schedule
    [of "example_client 7" ?refused "[example_config]" "''example.com''" "''443''"]
  have t7: "Dialer.Timeout (dialer (example_client 7)) \<noteq> 0"
    and t20: "Dialer.Timeout (dialer (example_client 20)) \<noteq> 0"
    and t0: "Dialer.Timeout (dialer (example_client 0)) = 0"
    by (simp_all add: example_client_def)
  have n7: "nat (sint (Dialer.Timeout (dialer (example_client 7)))) = 7"
    and n20: "nat (sint (Dialer.Timeout (dialer (example_client 20)))) = 20"
    by (simp_all add: example_client_def)
  have hd: "handshake_duration example_world = Some 5"
    and dd: "dial_duration example_world = 3"
    and hs: "Handshake example_world (Conn ''tcp'' ''example.com:443'') example_config = None"
    by (simp_all add: example_world_def)
  have r: "Dial ?refused ''tcp'' (JoinHostPort ''example.com'' ''443'')
             = Inl (LibraryError ''connection refused'')"
    by simp
  have 1: "take 3 (trace (Connect example_world [example_config] (example_client 7) ''example.com'' ''443''))
     = [MakeChan 2, AfterFunc 7, CallDial ''tcp'' ''example.com:443'']"
    using seven t7 by (simp add: example_client_def JoinHostPort_def)
  have "nat (sint (Dialer.Timeout (dialer (example_client 7)))) < dial_duration example_world + 5"
    using n7 dd by simp
  with seven t7 example_dial example_deref [of 7] hd
  have 2: "result (Connect example_world [example_config] (example_client 7) ''example.com'' ''443'')
     = Returned None (Some (Wrap (TimeoutErr timeoutError) ''could not do tls handshake''))"
    by blast
  have "dial_duration example_world + 5 < nat (sint (Dialer.Timeout (dialer (example_client 20))))"
    using n20 dd by simp
  with twenty t20 example_dial example_deref [of 20] hd hs
  have 3: "\<exists>response.
        result (Connect example_world [example_config] (example_client 20) ''example.com'' ''443'')
          = Returned (Some response) None"
    by blast
  from failed t7 r
  have "chan_writes (Connect ?refused [example_config] (example_client 7) ''example.com'' ''443'')
     = [(nat (sint (Dialer.Timeout (dialer (example_client 7)))), Some (TimeoutErr timeoutError))]"
    by blast
  with n7 have 4: "chan_writes (Connect ?refused [example_config] (example_client 7) ''example.com'' ''443'')
     = [(7, Some (TimeoutErr timeoutError))]"
    by simp
  from zero t0 have 5: "chan_writes (Connect example_world [example_config] (example_client 0) ''example.com'' ''443'') = []"
    by blast
  from zero t0 example_dial example_deref [of 0]
  have 6: "CallHandshake
       \<in> set (trace (Connect example_world [example_config] (example_client 0) ''example.com'' ''443''))"
    by blast
  from 1 2 3 4 5 6 show ?thesis by blast
qed

end
